theory Spec2Isabelle
  imports Main
begin

section \<open>Values, errors and promises\<close>

text \<open>
  The revision variables of \<^verbatim>\<open>util.js\<close> hold \<^verbatim>\<open>null\<close> (the initial cache),
  \<^verbatim>\<open>undefined\<close> (a declared but unassigned \<^verbatim>\<open>sha\<close>, a missing attribute, an array
  index out of range) or a string. The tests \<^verbatim>\<open>if (x)\<close> and \<^verbatim>\<open>if (!x)\<close> of the source
  are JavaScript truthiness: of these values only a non-empty string is truthy.
\<close>

datatype jsval = Null | Undefined | Str string

fun truthy :: "jsval \<Rightarrow> bool" where
  "truthy Null = False"
| "truthy Undefined = False"
| "truthy (Str s) = (s \<noteq> [])"

text \<open>
  Rejection reasons: an \<^verbatim>\<open>Error\<close> object with its message, the \<^verbatim>\<open>ReferenceError\<close>
  the runtime throws for an identifier that is not in scope, or a plain string (the INI
  scanner rejects with a string, not with an \<^verbatim>\<open>Error\<close>).
\<close>

datatype js_error = Error string | ReferenceError string | Reason string

text \<open>
  A promise is pending until the first call of \<^verbatim>\<open>resolve\<close> or \<^verbatim>\<open>reject\<close>; later calls
  have no effect. A promise nobody settles stays pending: its \<^verbatim>\<open>then\<close> handlers never
  run and the caller sees neither a value nor a failure.
\<close>

datatype 'a promise = Pending | Fulfilled 'a | Rejected js_error

fun resolve :: "'a \<Rightarrow> 'a promise \<Rightarrow> 'a promise" where
  "resolve v Pending = Fulfilled v"
| "resolve v p = p"

fun reject :: "js_error \<Rightarrow> 'a promise \<Rightarrow> 'a promise" where
  "reject e Pending = Rejected e"
| "reject e p = p"

section \<open>Strings and paths\<close>

definition newline :: char where
  "newline = CHR 0x0A"

text \<open>
  \<^verbatim>\<open>s.split(c)\<close> for a one-character separator: the pieces between the separators, in
  order; a string without the separator is one piece, and the result is never empty.
\<close>

fun split :: "char \<Rightarrow> string \<Rightarrow> string list" where
  "split c [] = [[]]"
| "split c (x # xs) =
     (if x = c then [] # split c xs
      else (case split c xs of [] \<Rightarrow> [[x]] | w # ws \<Rightarrow> (x # w) # ws))"

text \<open>\<^verbatim>\<open>a[i]\<close> on an array of strings: \<^verbatim>\<open>undefined\<close> out of range.\<close>

definition index :: "string list \<Rightarrow> nat \<Rightarrow> jsval" where
  "index a i = (if i < length a then Str (a ! i) else Undefined)"

text \<open>\<^verbatim>\<open>s.indexOf(sub)\<close>: the first position at which \<^verbatim>\<open>sub\<close> occurs in \<^verbatim>\<open>s\<close>, or -1.\<close>

fun indexOf_from :: "nat \<Rightarrow> string \<Rightarrow> string \<Rightarrow> int" where
  "indexOf_from i [] sub = (if sub = [] then int i else - 1)"
| "indexOf_from i (x # xs) sub =
     (if take (length sub) (x # xs) = sub then int i else indexOf_from (Suc i) xs sub)"

definition indexOf :: "string \<Rightarrow> string \<Rightarrow> int" where
  "indexOf s sub = indexOf_from 0 s sub"

text \<open>
  \<^verbatim>\<open>path.join(a, b)\<close> on the segments this file joins (no empty segment, no \<^verbatim>\<open>.\<close> or
  \<^verbatim>\<open>..\<close>, no doubled separator): the two segments with one \<^verbatim>\<open>/\<close> between them.
\<close>

definition path_join :: "string \<Rightarrow> string \<Rightarrow> string" where
  "path_join a b = a @ ''/'' @ b"

definition SYSTEM :: string where "SYSTEM = ''/system''"
definition SYSTEM_B2G :: string where "SYSTEM_B2G = ''/system/b2g''"
definition SETTINGS :: string where "SETTINGS = ''webapps/settings.gaiamobile.org''"
definition B2G_SETTINGS :: string where "B2G_SETTINGS = path_join SYSTEM_B2G SETTINGS"
definition DATA_LOCAL_SETTINGS :: string where
  "DATA_LOCAL_SETTINGS = path_join ''/data/local'' SETTINGS"
definition APPLICATION_INI :: string where "APPLICATION_INI = ''application.ini''"
definition PLATFORM_INI :: string where "PLATFORM_INI = ''platform.ini''"
definition APPLICATION_ZIP :: string where "APPLICATION_ZIP = ''application.zip''"
definition SOURCES_XML :: string where "SOURCES_XML = ''sources.xml''"
definition GAIA_COMMIT :: string where "GAIA_COMMIT = ''resources/gaia_commit.txt''"

section \<open>Local files, the device and the process state\<close>

text \<open>
  \<^verbatim>\<open>sax\<close> and \<^verbatim>\<open>unzip\<close> are libraries outside the repository. A local file is modelled by
  what each reader emits for it: the \<^verbatim>\<open>opentag\<close> events of the sax stream (element name
  and attributes, upper-cased by sax's non-strict mode), the \<^verbatim>\<open>data\<close> buffers of
  \<^verbatim>\<open>fs.createReadStream\<close> (their sizes are the runtime's choice), and the \<^verbatim>\<open>entry\<close> events
  of \<^verbatim>\<open>unzip.Parse\<close>, each entry a path and the \<^verbatim>\<open>data\<close> buffers of its content stream.
  Every stream is finite. The read stream and the sax stream emit \<^verbatim>\<open>end\<close> after their last
  event, and \<^verbatim>\<open>unzip.Parse\<close> emits \<^verbatim>\<open>close\<close> after its last entry. Whether the content
  stream of an entry emits \<^verbatim>\<open>close\<close> after its last buffer is the library's and the
  runtime's matter (a pass-through stream ends without it on the runtimes this code was
  written for), so it is a field of the entry: the \<^verbatim>\<open>close\<close> handler of
  \<^verbatim>\<open>readGaiaCommit\<close> runs only when it is set.
\<close>

record node =
  name :: string
  attributes :: "string \<rightharpoonup> string"

record entry =
  path :: string
  contents :: "string list"
  closes :: bool

record local_file =
  opentags :: "node list"
  buffers :: "string list"
  entries :: "entry list"

text \<open>
  One call of \<^verbatim>\<open>pullToTemp\<close> ends in one of four ways, chosen by the environment:
  \<^verbatim>\<open>temp.mkdir\<close> calls back with an error; the directory is allocated and the adb command
  rejects; the command reports success and \<^verbatim>\<open>fs.exists\<close> finds no local file; or the
  file is there (the directory of \<^verbatim>\<open>temp.mkdir\<close> is new, so the file is there only when
  the command has put it there). The device answers per serial number and remote path.
\<close>

datatype pull_outcome =
    MkdirFailed js_error
  | CommandFailed string js_error
  | FileAbsent string
  | Pulled string local_file

type_synonym device = "string \<Rightarrow> string \<Rightarrow> pull_outcome"

datatype io_event =
    Retrieve string string string
  | AdbPull string string string

record Util =
  serial :: string

text \<open>
  The process state: the two static cache fields \<^verbatim>\<open>Util._geckoRevision\<close> and
  \<^verbatim>\<open>Util._gaiaRevision\<close>, the local file system, the trace of retriever calls
  (\<open>Retrieve serial remotePath file\<close>, one per call of \<^verbatim>\<open>pullToTemp\<close>) and of adb commands
  sent to the device (\<open>AdbPull serial remote local\<close>), and the archive entries on which
  \<^verbatim>\<open>autodrain()\<close> was called.
\<close>

record state =
  geckoRevision :: jsval
  gaiaRevision :: jsval
  files :: "string \<rightharpoonup> local_file"
  trace :: "io_event list"
  drained :: "entry list"

definition initial :: state where
  "initial = \<lparr>geckoRevision = Null, gaiaRevision = Null, files = Map.empty,
     trace = [], drained = []\<rparr>"

section \<open>The three readers\<close>

subsection \<open>readFileFromZip\<close>

text \<open>
  The \<^verbatim>\<open>entry\<close> handler of lines 41-50 on the pair (fileFound, promise) and the drained
  entries: an entry with another path is drained; an entry with the wanted path sets
  \<^verbatim>\<open>fileFound\<close> and resolves. The \<^verbatim>\<open>close\<close> handler of lines 36-40 rejects when nothing
  was found.
\<close>

fun on_entry :: "string \<Rightarrow> entry \<Rightarrow> (bool \<times> entry promise) \<times> entry list
    \<Rightarrow> (bool \<times> entry promise) \<times> entry list" where
  "on_entry filePath e ((fileFound, p), dr) =
     (if path e \<noteq> filePath then ((fileFound, p), dr @ [e])
      else ((True, resolve e p), dr))"

fun on_zip_close :: "bool \<times> entry promise \<Rightarrow> entry promise" where
  "on_zip_close (fileFound, p) =
     (if \<not> fileFound then reject (Error ''Zip file not found'') p else p)"

text \<open>
  A path with no local file behind it makes the read stream emit \<^verbatim>\<open>error\<close>, which no
  handler of this file listens to: the promise is never settled. (In the pipeline the
  path is always one that \<^verbatim>\<open>pullToTemp\<close> has just found to exist.)
\<close>

definition readFileFromZip :: "string \<Rightarrow> string \<Rightarrow> state \<Rightarrow> entry promise \<times> state" where
  "readFileFromZip zipPath filePath st =
     (case files st zipPath of
        None \<Rightarrow> (Pending, st)
      | Some f \<Rightarrow>
          (let (s, dr) = fold (on_entry filePath) (entries f) ((False, Pending), [])
           in (on_zip_close s, st\<lparr>drained := drained st @ dr\<rparr>)))"

subsection \<open>getGeckoRevisionFromXml\<close>

definition attribute :: "node \<Rightarrow> string \<Rightarrow> jsval" where
  "attribute nd a = (case attributes nd a of None \<Rightarrow> Undefined | Some v \<Rightarrow> Str v)"

definition is_gecko_project :: "node \<Rightarrow> bool" where
  "is_gecko_project nd = (name nd = ''PROJECT'' \<and> attribute nd ''NAME'' = Str ''gecko'')"

text \<open>The \<^verbatim>\<open>opentag\<close> handler (lines 65-70) and the \<^verbatim>\<open>end\<close> handler (lines 72-76) on (sha, promise).\<close>

fun on_opentag :: "node \<Rightarrow> jsval \<times> jsval promise \<Rightarrow> jsval \<times> jsval promise" where
  "on_opentag nd (sha, p) =
     (if is_gecko_project nd
      then (attribute nd ''REVISION'', resolve (attribute nd ''REVISION'') p)
      else (sha, p))"

fun on_xml_end :: "string \<Rightarrow> jsval \<times> jsval promise \<Rightarrow> jsval promise" where
  "on_xml_end xmlPath (sha, p) =
     (if \<not> truthy sha then reject (Error (''Unable to find revision in '' @ xmlPath)) p
      else p)"

definition getGeckoRevisionFromXml :: "string \<Rightarrow> state \<Rightarrow> jsval promise" where
  "getGeckoRevisionFromXml xmlPath st =
     (case files st xmlPath of
        None \<Rightarrow> Pending
      | Some f \<Rightarrow> on_xml_end xmlPath (fold on_opentag (opentags f) (Undefined, Pending)))"

subsection \<open>getGeckoRevisionFromIni\<close>

text \<open>
  The callback given to \<^verbatim>\<open>some\<close> (lines 99-107) over the lines of one buffer: lines
  without \<^verbatim>\<open>SourceStamp\<close> are passed over; the first line with it assigns \<^verbatim>\<open>sha\<close>, calls
  \<^verbatim>\<open>resolve\<close> and stops the iteration of this buffer.
\<close>

fun some_line :: "string list \<Rightarrow> jsval \<times> jsval promise \<Rightarrow> jsval \<times> jsval promise" where
  "some_line [] s = s"
| "some_line (line # rest) (sha, p) =
     (if indexOf line ''SourceStamp'' = - 1 then some_line rest (sha, p)
      else (index (split (CHR ''='') line) 1, resolve (index (split (CHR ''='') line) 1) p))"

definition on_data :: "string \<Rightarrow> jsval \<times> jsval promise \<Rightarrow> jsval \<times> jsval promise" where
  "on_data buffer s = some_line (split newline buffer) s"

fun on_ini_end :: "string \<Rightarrow> jsval \<times> jsval promise \<Rightarrow> jsval promise" where
  "on_ini_end iniPath (sha, p) =
     (if \<not> truthy sha then reject (Reason (''Unable to find revision in '' @ iniPath)) p
      else p)"

definition getGeckoRevisionFromIni :: "string \<Rightarrow> state \<Rightarrow> jsval promise" where
  "getGeckoRevisionFromIni iniPath st =
     (case files st iniPath of
        None \<Rightarrow> Pending
      | Some f \<Rightarrow> on_ini_end iniPath (fold on_data (buffers f) (Undefined, Pending)))"

section \<open>Retrieval\<close>

text \<open>\<^verbatim>\<open>pull\<close> (lines 241-246) sends one adb command; its outcome is the device's.\<close>

definition pull :: "Util \<Rightarrow> string \<Rightarrow> string \<Rightarrow> state \<Rightarrow> state" where
  "pull util remote local st =
     st\<lparr>trace := trace st @ [AdbPull (serial util) remote local]\<rparr>"

definition pullToTemp ::
    "Util \<Rightarrow> device \<Rightarrow> string \<Rightarrow> string \<Rightarrow> state \<Rightarrow> string promise \<times> state" where
  "pullToTemp util dev remotePath file st =
     (let st0 = st\<lparr>trace := trace st @ [Retrieve (serial util) remotePath file]\<rparr>;
          remote = path_join remotePath file
      in case dev (serial util) remote of
           MkdirFailed err \<Rightarrow> (Rejected err, st0)
         | CommandFailed tempDir err \<Rightarrow>
             (Rejected err, pull util remote (path_join tempDir file) st0)
         | FileAbsent tempDir \<Rightarrow>
             (Rejected (Error ''Failed to pull remote file''),
              pull util remote (path_join tempDir file) st0)
         | Pulled tempDir f \<Rightarrow>
             (Fulfilled tempDir,
              (pull util remote (path_join tempDir file) st0)
                \<lparr>files := (files st0)(path_join tempDir file \<mapsto> f)\<rparr>))"

text \<open>
  \<^verbatim>\<open>pullApplicationZip\<close> (lines 286-300): \<^verbatim>\<open>then(resolve, function() { ... })\<close> on the first
  retrieval; the second retrieval is chained with \<^verbatim>\<open>then(resolve, reject)\<close>, so the
  returned promise settles as the second retrieval does.
\<close>

definition pullApplicationZip :: "Util \<Rightarrow> device \<Rightarrow> state \<Rightarrow> string promise \<times> state" where
  "pullApplicationZip util dev st =
     (case pullToTemp util dev B2G_SETTINGS APPLICATION_ZIP st of
        (Fulfilled tempDir, st1) \<Rightarrow> (Fulfilled tempDir, st1)
      | (Rejected _, st1) \<Rightarrow> pullToTemp util dev DATA_LOCAL_SETTINGS APPLICATION_ZIP st1
      | (Pending, st1) \<Rightarrow> (Pending, st1))"

text \<open>
  Reading an identifier in a handler: its value when a parameter of that name is in
  scope, a thrown \<^verbatim>\<open>ReferenceError\<close> otherwise. An exception thrown inside a \<^verbatim>\<open>then\<close>
  handler rejects only the promise that this \<^verbatim>\<open>then\<close> call returned, which nobody holds.
\<close>

definition read_identifier :: "(string \<times> string) list \<Rightarrow> string \<Rightarrow> js_error + string" where
  "read_identifier scope x =
     (case map_of scope x of
        None \<Rightarrow> Inl (ReferenceError (x @ '' is not defined''))
      | Some v \<Rightarrow> Inr v)"

text \<open>
  \<^verbatim>\<open>pullB2GIni\<close> (lines 306-324). The fulfilment handler of the first retrieval is
  \<^verbatim>\<open>function(tempDir) { resolve(path.join(tempDir, PATHS.APPLICATION_INI)) }\<close>. The
  fulfilment handler of the second is
  \<^verbatim>\<open>function() { resolve(path.join(tempDir, PATHS.PLATFORM_INI)); }\<close>: it has no parameter,
  and no enclosing function declares \<^verbatim>\<open>tempDir\<close>, so its scope binds nothing of that name
  and \<^verbatim>\<open>resolve\<close> is called only if reading \<^verbatim>\<open>tempDir\<close> returns.
\<close>

definition pullB2GIni :: "Util \<Rightarrow> device \<Rightarrow> state \<Rightarrow> string promise \<times> state" where
  "pullB2GIni util dev st =
     (case pullToTemp util dev SYSTEM_B2G APPLICATION_INI st of
        (Fulfilled tempDir, st1) \<Rightarrow>
          (case read_identifier [(''tempDir'', tempDir)] ''tempDir'' of
             Inr d \<Rightarrow> (Fulfilled (path_join d APPLICATION_INI), st1)
           | Inl _ \<Rightarrow> (Pending, st1))
      | (Rejected _, st1) \<Rightarrow>
          (case pullToTemp util dev SYSTEM_B2G PLATFORM_INI st1 of
             (Fulfilled _, st2) \<Rightarrow>
               (case read_identifier [] ''tempDir'' of
                  Inr d \<Rightarrow> (Fulfilled (path_join d PLATFORM_INI), st2)
                | Inl _ \<Rightarrow> (Pending, st2))
           | (Rejected e, st2) \<Rightarrow> (Rejected e, st2)
           | (Pending, st2) \<Rightarrow> (Pending, st2))
      | (Pending, st1) \<Rightarrow> (Pending, st1))"

section \<open>The Gecko revision\<close>

text \<open>
  \<^verbatim>\<open>pullFromIni\<close> (lines 340-345):
  \<^verbatim>\<open>pullB2GIni().then(getGeckoRevisionFromIni).then(resolve, reject)\<close>. The scanner runs
  when \<^verbatim>\<open>pullB2GIni\<close> fulfils; a rejection passes through to \<^verbatim>\<open>reject\<close>.
\<close>

definition pullFromIni :: "Util \<Rightarrow> device \<Rightarrow> state \<Rightarrow> jsval promise \<times> state" where
  "pullFromIni util dev st =
     (case pullB2GIni util dev st of
        (Fulfilled iniPath, st1) \<Rightarrow> (getGeckoRevisionFromIni iniPath st1, st1)
      | (Rejected e, st1) \<Rightarrow> (Rejected e, st1)
      | (Pending, st1) \<Rightarrow> (Pending, st1))"

text \<open>The promise built in lines 339-353, before the caching handler is attached.\<close>

definition geckoPromise :: "Util \<Rightarrow> device \<Rightarrow> state \<Rightarrow> jsval promise \<times> state" where
  "geckoPromise util dev st =
     (case pullToTemp util dev SYSTEM SOURCES_XML st of
        (Fulfilled tempDir, st1) \<Rightarrow>
          (case getGeckoRevisionFromXml (path_join tempDir SOURCES_XML) st1 of
             Fulfilled sha \<Rightarrow> (Fulfilled sha, st1)
           | Rejected _ \<Rightarrow> pullFromIni util dev st1
           | Pending \<Rightarrow> (Pending, st1))
      | (Rejected _, st1) \<Rightarrow> pullFromIni util dev st1
      | (Pending, st1) \<Rightarrow> (Pending, st1))"

text \<open>
  \<^verbatim>\<open>getGeckoRevision\<close> (lines 330-362): a truthy cache is returned at once; otherwise the
  promise above is built, and its fulfilment handler stores the value in the cache.
\<close>

definition getGeckoRevision :: "Util \<Rightarrow> device \<Rightarrow> state \<Rightarrow> jsval promise \<times> state" where
  "getGeckoRevision util dev st =
     (if truthy (geckoRevision st) then (Fulfilled (geckoRevision st), st)
      else
        (case geckoPromise util dev st of
           (Fulfilled sha, st') \<Rightarrow> (Fulfilled sha, st'\<lparr>geckoRevision := sha\<rparr>)
         | (Rejected e, st') \<Rightarrow> (Rejected e, st')
         | (Pending, st') \<Rightarrow> (Pending, st')))"

section \<open>The Gaia revision\<close>

text \<open>
  The \<^verbatim>\<open>data\<close> listener of lines 130-136 on (sha, listener attached, promise): the first
  buffer assigns its first line to \<^verbatim>\<open>sha\<close>, removes the listener and resolves. The
  \<^verbatim>\<open>close\<close> handler of lines 137-141 rejects when \<^verbatim>\<open>sha\<close> is falsy; it runs when the
  entry's stream emits \<^verbatim>\<open>close\<close>, and otherwise the promise is left as the buffers left it.
\<close>

fun on_commit_data :: "string \<Rightarrow> jsval \<times> bool \<times> jsval promise \<Rightarrow> jsval \<times> bool \<times> jsval promise" where
  "on_commit_data buffer (sha, attached, p) =
     (if attached \<and> \<not> truthy sha
      then (index (split newline buffer) 0, False, resolve (index (split newline buffer) 0) p)
      else (sha, attached, p))"

fun on_commit_close :: "string \<Rightarrow> jsval \<times> bool \<times> jsval promise \<Rightarrow> jsval promise" where
  "on_commit_close zipFile (sha, attached, p) =
     (if \<not> truthy sha then reject (Error (''Unable to find revision in '' @ zipFile)) p
      else p)"

text \<open>
  \<^verbatim>\<open>readGaiaCommit\<close> (lines 122-144). \<^verbatim>\<open>readFileFromZip(...).then(function(stream) {...})\<close>
  is given a fulfilment handler only: when \<^verbatim>\<open>readFileFromZip\<close> rejects, neither
  \<^verbatim>\<open>resolve\<close> nor \<^verbatim>\<open>reject\<close> of the promise that \<^verbatim>\<open>readGaiaCommit\<close> returns is called.
\<close>

definition readGaiaCommit :: "string \<Rightarrow> state \<Rightarrow> jsval promise \<times> state" where
  "readGaiaCommit baseDir st =
     (let zipFile = path_join baseDir APPLICATION_ZIP
      in case readFileFromZip zipFile GAIA_COMMIT st of
           (Fulfilled stream, st1) \<Rightarrow>
             (let s = fold on_commit_data (contents stream) (Undefined, True, Pending)
              in if closes stream then on_commit_close zipFile s
                 else (case s of (sha, attached, p) \<Rightarrow> p), st1)
         | (Rejected _, st1) \<Rightarrow> (Pending, st1)
         | (Pending, st1) \<Rightarrow> (Pending, st1))"

text \<open>The promise of lines 373-375: \<^verbatim>\<open>pullApplicationZip().then(readGaiaCommit)\<close>.\<close>

definition gaiaPromise :: "Util \<Rightarrow> device \<Rightarrow> state \<Rightarrow> jsval promise \<times> state" where
  "gaiaPromise util dev st =
     (case pullApplicationZip util dev st of
        (Fulfilled tempDir, st1) \<Rightarrow> readGaiaCommit tempDir st1
      | (Rejected e, st1) \<Rightarrow> (Rejected e, st1)
      | (Pending, st1) \<Rightarrow> (Pending, st1))"

definition getGaiaRevision :: "Util \<Rightarrow> device \<Rightarrow> state \<Rightarrow> jsval promise \<times> state" where
  "getGaiaRevision util dev st =
     (if truthy (gaiaRevision st) then (Fulfilled (gaiaRevision st), st)
      else
        (case gaiaPromise util dev st of
           (Fulfilled sha, st') \<Rightarrow> (Fulfilled sha, st'\<lparr>gaiaRevision := sha\<rparr>)
         | (Rejected e, st') \<Rightarrow> (Rejected e, st')
         | (Pending, st') \<Rightarrow> (Pending, st')))"

section \<open>Sequences of requests and views of the trace\<close>

text \<open>
  Requests are served one after the other, each by some \<^verbatim>\<open>Util\<close> instance against
  whatever the device answers at that time; all of them share the process state.
\<close>

datatype kind = Gecko | Gaia

fun cached :: "kind \<Rightarrow> state \<Rightarrow> jsval" where
  "cached Gecko st = geckoRevision st"
| "cached Gaia st = gaiaRevision st"

fun request :: "kind \<Rightarrow> Util \<Rightarrow> device \<Rightarrow> state \<Rightarrow> jsval promise \<times> state" where
  "request Gecko util dev st = getGeckoRevision util dev st"
| "request Gaia util dev st = getGaiaRevision util dev st"

fun serve :: "(kind \<times> Util \<times> device) list \<Rightarrow> state \<Rightarrow> state" where
  "serve [] st = st"
| "serve ((k, util, dev) # rs) st = serve rs (snd (request k util dev st))"

text \<open>The candidates (remote directory, file name) retrieved in a trace, in order.\<close>

fun retrieved :: "io_event \<Rightarrow> (string \<times> string) list" where
  "retrieved (Retrieve s d f) = [(d, f)]"
| "retrieved (AdbPull s r l) = []"

definition retrievals :: "io_event list \<Rightarrow> (string \<times> string) list" where
  "retrievals tr = concat (map retrieved tr)"

text \<open>The candidate lists of the two fallback chains, in the order of the source.\<close>

definition zip_candidates :: "(string \<times> string) list" where
  "zip_candidates = [(B2G_SETTINGS, APPLICATION_ZIP), (DATA_LOCAL_SETTINGS, APPLICATION_ZIP)]"

definition ini_candidates :: "(string \<times> string) list" where
  "ini_candidates = [(SYSTEM_B2G, APPLICATION_INI), (SYSTEM_B2G, PLATFORM_INI)]"

section \<open>Example inputs\<close>

text \<open>Files seen through one reader only, and a state whose file system holds one file.\<close>

definition xml_file :: "node list \<Rightarrow> local_file" where
  "xml_file ns = \<lparr>opentags = ns, buffers = [], entries = []\<rparr>"

definition text_file :: "string list \<Rightarrow> local_file" where
  "text_file bs = \<lparr>opentags = [], buffers = bs, entries = []\<rparr>"

definition zip_file :: "entry list \<Rightarrow> local_file" where
  "zip_file es = \<lparr>opentags = [], buffers = [], entries = es\<rparr>"

definition with_file :: "string \<Rightarrow> local_file \<Rightarrow> state" where
  "with_file p f = initial\<lparr>files := [p \<mapsto> f]\<rparr>"

definition manifest_tag :: node where
  "manifest_tag = \<lparr>name = ''MANIFEST'', attributes = Map.empty\<rparr>"

definition other_project :: node where
  "other_project = \<lparr>name = ''PROJECT'', attributes = [''NAME'' \<mapsto> ''other'', ''REVISION'' \<mapsto> ''111'']\<rparr>"

definition gecko_project :: node where
  "gecko_project = \<lparr>name = ''PROJECT'', attributes = [''NAME'' \<mapsto> ''gecko'', ''REVISION'' \<mapsto> ''abc123'']\<rparr>"

definition bare_gecko_project :: node where
  "bare_gecko_project = \<lparr>name = ''PROJECT'', attributes = [''NAME'' \<mapsto> ''gecko'']\<rparr>"

definition entry_a :: entry where
  "entry_a = \<lparr>path = ''a.txt'', contents = [''aaa''], closes = False\<rparr>"

definition entry_target :: entry where
  "entry_target = \<lparr>path = ''target.txt'', contents = [''ttt''], closes = False\<rparr>"

definition entry_b :: entry where
  "entry_b = \<lparr>path = ''b.txt'', contents = [''bbb''], closes = False\<rparr>"

definition stamp_ini :: "string list" where
  "stamp_ini = [''FOO=1'' @ [newline] @ ''SourceStamp=a=b'' @ [newline] @ ''BAR=2'' @ [newline]]"

text \<open>
  Two \<^verbatim>\<open>Util\<close> instances, and devices given by the remote paths they can deliver; any
  other pull is an adb command that fails.
\<close>

definition util1 :: Util where
  "util1 = \<lparr>serial = ''emulator-5554''\<rparr>"

definition util2 :: Util where
  "util2 = \<lparr>serial = ''emulator-5556''\<rparr>"

definition device_with :: "(string \<times> pull_outcome) list \<Rightarrow> device" where
  "device_with answers s r =
     (case map_of answers r of
        Some a \<Rightarrow> a
      | None \<Rightarrow> CommandFailed ''/tmp/raptor-temp-0''
                 (Error (''remote object '' @ r @ '' does not exist'')))"

definition unreachable :: device where
  "unreachable = device_with []"

definition commit_entry :: entry where
  "commit_entry = \<lparr>path = GAIA_COMMIT, contents = [''f00dcafe'' @ [newline]], closes = False\<rparr>"

definition dev_primary :: device where
  "dev_primary = device_with
     [(path_join B2G_SETTINGS APPLICATION_ZIP,
         Pulled ''/tmp/raptor-temp-1'' (zip_file [entry_a, commit_entry])),
      (path_join SYSTEM_B2G APPLICATION_INI,
         Pulled ''/tmp/raptor-temp-2'' (text_file [''SourceStamp=cafef00d'' @ [newline]]))]"

definition dev_manifest :: device where
  "dev_manifest = device_with
     [(path_join SYSTEM SOURCES_XML,
         Pulled ''/tmp/raptor-temp-1'' (xml_file [manifest_tag, other_project, gecko_project]))]"

definition dev_platform_only :: device where
  "dev_platform_only = device_with
     [(path_join SYSTEM_B2G PLATFORM_INI,
         Pulled ''/tmp/raptor-temp-3'' (text_file [''SourceStamp=cafef00d'' @ [newline]]))]"

definition dev_no_commit :: device where
  "dev_no_commit = device_with
     [(path_join B2G_SETTINGS APPLICATION_ZIP,
         Pulled ''/tmp/raptor-temp-1'' (zip_file [entry_a, entry_b]))]"

definition dev_platform_no_stamp :: device where
  "dev_platform_no_stamp = device_with
     [(path_join SYSTEM_B2G PLATFORM_INI,
         Pulled ''/tmp/raptor-temp-3'' (text_file [''Milestone=2.0'' @ [newline]]))]"

definition dev_empty_commit :: "bool \<Rightarrow> device" where
  "dev_empty_commit c = device_with
     [(path_join B2G_SETTINGS APPLICATION_ZIP,
         Pulled ''/tmp/raptor-temp-1''
           (zip_file [entry_a, \<lparr>path = GAIA_COMMIT, contents = [], closes = c\<rparr>]))]"

definition dev_empty_stamp :: device where
  "dev_empty_stamp = device_with
     [(path_join SYSTEM_B2G APPLICATION_INI,
         Pulled ''/tmp/raptor-temp-2'' (text_file [''SourceStamp='' @ [newline]]))]"


section \<open>Basic facts\<close>

lemmas PATHS =
  SYSTEM_def SYSTEM_B2G_def SETTINGS_def B2G_SETTINGS_def DATA_LOCAL_SETTINGS_def
  APPLICATION_INI_def PLATFORM_INI_def APPLICATION_ZIP_def SOURCES_XML_def GAIA_COMMIT_def
  path_join_def

lemmas examples = xml_file_def text_file_def zip_file_def with_file_def initial_def
  manifest_tag_def other_project_def gecko_project_def bare_gecko_project_def
  entry_a_def entry_target_def entry_b_def

text \<open>A settled promise ignores every later \<^verbatim>\<open>resolve\<close> and \<^verbatim>\<open>reject\<close>.\<close>

lemma resolve_settled: "p \<noteq> Pending \<Longrightarrow> resolve v p = p"
  by (cases p) simp_all

lemma reject_settled: "p \<noteq> Pending \<Longrightarrow> reject e p = p"
  by (cases p) simp_all

lemma first_match_split:
  "\<exists>x\<in>set xs. P x \<Longrightarrow> \<exists>pre y post. xs = pre @ y # post \<and> (\<forall>x\<in>set pre. \<not> P x) \<and> P y"
  by (metis split_list_first_prop)

section \<open>The archive entry extractor\<close>

lemma entry_skip:
  "\<forall>e\<in>set es. path e \<noteq> filePath \<Longrightarrow> fold (on_entry filePath) es (s, dr) = (s, dr @ es)"
  by (induction es arbitrary: s dr) (auto simp: split_paired_all)

lemma entry_drained:
  "snd (fold (on_entry filePath) es (s, dr)) = dr @ filter (\<lambda>e. path e \<noteq> filePath) es"
  by (induction es arbitrary: s dr) (auto simp: split_paired_all)

lemma entry_settled:
  "p \<noteq> Pending \<Longrightarrow> fst (fold (on_entry filePath) es ((True, p), dr)) = (True, p)"
  by (induction es arbitrary: dr) (auto simp: resolve_settled)

lemma entry_first:
  assumes "\<forall>e\<in>set pre. path e \<noteq> filePath" and "path e = filePath"
  shows "fst (fold (on_entry filePath) (pre @ e # post) ((False, Pending), dr)) = (True, Fulfilled e)"
  using assms by (simp add: entry_skip entry_settled)

text \<open>
  Claim C7. For an archive at \<open>zipPath\<close> emitting the entries \<open>entries f\<close> and a target
  path \<open>filePath\<close>: \<^verbatim>\<open>readFileFromZip\<close> rejects exactly when no entry has the target
  path, and then with the error \<^verbatim>\<open>Zip file not found\<close>; when some entry has it, the promise
  is fulfilled with the first such entry (its content stream); and the entries drained
  by the scan are exactly the entries with another path, all of them, in order.
\<close>

theorem zip_extractor:
  assumes "files st zipPath = Some f"
  shows "((\<exists>err. fst (readFileFromZip zipPath filePath st) = Rejected err)
            = (\<forall>e\<in>set (entries f). path e \<noteq> filePath))
       \<and> ((\<forall>e\<in>set (entries f). path e \<noteq> filePath)
            \<longrightarrow> fst (readFileFromZip zipPath filePath st) = Rejected (Error ''Zip file not found''))
       \<and> (entries f = pre @ e # post \<and> (\<forall>x\<in>set pre. path x \<noteq> filePath) \<and> path e = filePath
            \<longrightarrow> fst (readFileFromZip zipPath filePath st) = Fulfilled e)
       \<and> drained (snd (readFileFromZip zipPath filePath st))
            = drained st @ filter (\<lambda>e. path e \<noteq> filePath) (entries f)"
proof -
  let ?r = "fst (readFileFromZip zipPath filePath st)"
  have unfold: "readFileFromZip zipPath filePath st =
      (on_zip_close (fst (fold (on_entry filePath) (entries f) ((False, Pending), []))),
       st\<lparr>drained := drained st @ snd (fold (on_entry filePath) (entries f) ((False, Pending), []))\<rparr>)"
    using assms by (simp add: readFileFromZip_def split_def Let_def)
  have hit: "?r = Fulfilled y"
    if "entries f = a @ y # b" "\<forall>x\<in>set a. path x \<noteq> filePath" "path y = filePath" for a y b
    using that entry_first [of a filePath y b "[]"] by (simp add: unfold del: fold_append fold_Cons)
  have miss: "?r = Rejected (Error ''Zip file not found'')"
    if "\<forall>e\<in>set (entries f). path e \<noteq> filePath"
    using that by (simp add: unfold entry_skip)
  have "\<not> (\<exists>err. ?r = Rejected err)" if "\<exists>e\<in>set (entries f). \<not> path e \<noteq> filePath"
  proof -
    from first_match_split [OF that] obtain a y b where
      "entries f = a @ y # b" "\<forall>x\<in>set a. \<not> \<not> path x \<noteq> filePath" "\<not> path y \<noteq> filePath" by blast
    then show ?thesis using hit by simp
  qed
  moreover have "drained (snd (readFileFromZip zipPath filePath st))
      = drained st @ filter (\<lambda>e. path e \<noteq> filePath) (entries f)"
    by (simp add: unfold entry_drained)
  ultimately show ?thesis using hit miss by blast
qed

theorem zip_extractor_witness:
  "fst (readFileFromZip ''/tmp/t1/application.zip'' ''target.txt''
      (with_file ''/tmp/t1/application.zip'' (zip_file [entry_a, entry_target, entry_b])))
     = Fulfilled entry_target
   \<and> drained (snd (readFileFromZip ''/tmp/t1/application.zip'' ''target.txt''
      (with_file ''/tmp/t1/application.zip'' (zip_file [entry_a, entry_target, entry_b]))))
     = [entry_a, entry_b]
   \<and> fst (readFileFromZip ''/tmp/t1/application.zip'' ''missing.txt''
      (with_file ''/tmp/t1/application.zip'' (zip_file [entry_a, entry_target, entry_b])))
     = Rejected (Error ''Zip file not found'')
   \<and> drained (snd (readFileFromZip ''/tmp/t1/application.zip'' ''missing.txt''
      (with_file ''/tmp/t1/application.zip'' (zip_file [entry_a, entry_target, entry_b]))))
     = [entry_a, entry_target, entry_b]"
  using zip_extractor
      [of "with_file ''/tmp/t1/application.zip'' (zip_file [entry_a, entry_target, entry_b])"
          "''/tmp/t1/application.zip''" "zip_file [entry_a, entry_target, entry_b]"
          "''target.txt''" "[entry_a]" entry_target "[entry_b]"]
    zip_extractor
      [of "with_file ''/tmp/t1/application.zip'' (zip_file [entry_a, entry_target, entry_b])"
          "''/tmp/t1/application.zip''" "zip_file [entry_a, entry_target, entry_b]"
          "''missing.txt''"]
  by (simp add: examples)

section \<open>The XML scan\<close>

lemma opentag_skip:
  "\<forall>n\<in>set ns. \<not> is_gecko_project n \<Longrightarrow> fold on_opentag ns s = s"
  by (induction ns arbitrary: s) (auto simp: split_paired_all)

lemma opentag_settled:
  "p \<noteq> Pending \<Longrightarrow> snd (fold on_opentag ns (sha, p)) = p"
  by (induction ns arbitrary: sha p) (auto simp: resolve_settled)

lemma opentag_first:
  assumes "\<forall>n\<in>set pre. \<not> is_gecko_project n" and "is_gecko_project nd"
  shows "snd (fold on_opentag (pre @ nd # post) (sha, Pending)) = Fulfilled (attribute nd ''REVISION'')"
  using assms by (simp add: opentag_skip opentag_settled)

lemma xml_end_settled: "p \<noteq> Pending \<Longrightarrow> on_xml_end xmlPath (sha, p) = p"
  by (simp add: reject_settled)

lemma xml_end_snd: "snd s \<noteq> Pending \<Longrightarrow> on_xml_end xmlPath s = snd s"
  by (cases s) (simp add: reject_settled)

lemma xml_hit:
  assumes "\<forall>n\<in>set pre. \<not> is_gecko_project n" and "is_gecko_project nd"
  shows "on_xml_end xmlPath (fold on_opentag (pre @ nd # post) (Undefined, Pending))
           = Fulfilled (attribute nd ''REVISION'')"
proof -
  let ?s = "fold on_opentag (pre @ nd # post) (Undefined, Pending)"
  have s: "snd ?s = Fulfilled (attribute nd ''REVISION'')"
    using assms by (rule opentag_first)
  then have "snd ?s \<noteq> Pending" by (simp only: promise.distinct not_False_eq_True)
  then have "on_xml_end xmlPath ?s = snd ?s" by (rule xml_end_snd)
  with s show ?thesis by (simp only:)
qed

text \<open>
  Claim C8. For a document at \<open>xmlPath\<close> emitting the elements \<open>opentags f\<close>: when an
  element named \<^verbatim>\<open>PROJECT\<close> with \<^verbatim>\<open>NAME\<close> equal to \<^verbatim>\<open>gecko\<close> is preceded only by elements
  that are not such, the scan resolves with the \<^verbatim>\<open>REVISION\<close> attribute of that element;
  and the scan rejects exactly when no element of the stream is such an element, then
  with the error \<^verbatim>\<open>Unable to find revision in\<close> followed by the path.
\<close>

theorem xml_scan_first_gecko_project:
  assumes "files st xmlPath = Some f"
  shows "(opentags f = pre @ nd # post \<and> (\<forall>n\<in>set pre. \<not> is_gecko_project n) \<and> is_gecko_project nd
            \<longrightarrow> getGeckoRevisionFromXml xmlPath st = Fulfilled (attribute nd ''REVISION''))
       \<and> ((\<exists>e. getGeckoRevisionFromXml xmlPath st = Rejected e)
            = (\<forall>n\<in>set (opentags f). \<not> is_gecko_project n))
       \<and> ((\<forall>n\<in>set (opentags f). \<not> is_gecko_project n)
            \<longrightarrow> getGeckoRevisionFromXml xmlPath st
                  = Rejected (Error (''Unable to find revision in '' @ xmlPath)))"
proof -
  let ?r = "getGeckoRevisionFromXml xmlPath st"
  have hit: "?r = Fulfilled (attribute y ''REVISION'')"
    if "opentags f = a @ y # b" "\<forall>n\<in>set a. \<not> is_gecko_project n" "is_gecko_project y" for a y b
    using that assms by (simp add: getGeckoRevisionFromXml_def xml_hit del: fold_append fold_Cons)
  have miss: "?r = Rejected (Error (''Unable to find revision in '' @ xmlPath))"
    if "\<forall>n\<in>set (opentags f). \<not> is_gecko_project n"
    using that assms by (simp add: getGeckoRevisionFromXml_def opentag_skip)
  have "\<not> (\<exists>e. ?r = Rejected e)" if "\<exists>n\<in>set (opentags f). is_gecko_project n"
  proof -
    from first_match_split [OF that] obtain a y b where
      "opentags f = a @ y # b" "\<forall>n\<in>set a. \<not> is_gecko_project n" "is_gecko_project y" by blast
    then show ?thesis using hit by simp
  qed
  with hit miss show ?thesis by blast
qed

theorem xml_scan_first_gecko_project_witness:
  "getGeckoRevisionFromXml ''/tmp/t1/sources.xml''
     (with_file ''/tmp/t1/sources.xml'' (xml_file [manifest_tag, other_project, gecko_project]))
     = Fulfilled (Str ''abc123'')
   \<and> \<not> is_gecko_project manifest_tag \<and> \<not> is_gecko_project other_project
   \<and> is_gecko_project gecko_project
   \<and> (\<exists>e. getGeckoRevisionFromXml ''/tmp/t1/sources.xml''
          (with_file ''/tmp/t1/sources.xml'' (xml_file [manifest_tag, other_project])) = Rejected e)"
  using xml_scan_first_gecko_project
      [of "with_file ''/tmp/t1/sources.xml'' (xml_file [manifest_tag, other_project, gecko_project])"
          "''/tmp/t1/sources.xml''" "xml_file [manifest_tag, other_project, gecko_project]"
          "[manifest_tag, other_project]" gecko_project "[]"]
    xml_scan_first_gecko_project
      [of "with_file ''/tmp/t1/sources.xml'' (xml_file [manifest_tag, other_project])"
          "''/tmp/t1/sources.xml''" "xml_file [manifest_tag, other_project]"]
  by (simp add: examples is_gecko_project_def attribute_def)

text \<open>
  Claim C10. When the first element named \<^verbatim>\<open>PROJECT\<close> with \<^verbatim>\<open>NAME\<close> equal to \<^verbatim>\<open>gecko\<close>
  has no \<^verbatim>\<open>REVISION\<close> attribute, the scan is fulfilled with \<^verbatim>\<open>undefined\<close> and not rejected;
  and when no later element matches, \<^verbatim>\<open>sha\<close> is falsy when the stream ends, so the
  \<^verbatim>\<open>end\<close> handler does call \<^verbatim>\<open>reject\<close>, without effect on the settled promise.
\<close>

theorem xml_scan_undefined_revision:
  assumes "files st xmlPath = Some f"
    and "opentags f = pre @ nd # post"
    and "\<forall>n\<in>set pre. \<not> is_gecko_project n"
    and "is_gecko_project nd"
    and "attributes nd ''REVISION'' = None"
  shows "getGeckoRevisionFromXml xmlPath st = Fulfilled Undefined
       \<and> ((\<forall>n\<in>set post. \<not> is_gecko_project n)
            \<longrightarrow> \<not> truthy (fst (fold on_opentag (opentags f) (Undefined, Pending))))"
proof -
  have "attribute nd ''REVISION'' = Undefined"
    using assms(5) by (simp add: attribute_def)
  moreover have "getGeckoRevisionFromXml xmlPath st = Fulfilled (attribute nd ''REVISION'')"
    using assms(1-4) by (simp add: getGeckoRevisionFromXml_def xml_hit del: fold_append fold_Cons)
  moreover have "fst (fold on_opentag (opentags f) (Undefined, Pending)) = attribute nd ''REVISION''"
    if "\<forall>n\<in>set post. \<not> is_gecko_project n"
    using that assms(2-4) by (simp add: opentag_skip)
  ultimately show ?thesis by simp
qed

theorem xml_scan_undefined_revision_witness:
  "getGeckoRevisionFromXml ''/tmp/t1/sources.xml''
     (with_file ''/tmp/t1/sources.xml'' (xml_file [manifest_tag, bare_gecko_project]))
     = Fulfilled Undefined
   \<and> is_gecko_project bare_gecko_project
   \<and> attributes bare_gecko_project ''REVISION'' = None
   \<and> \<not> truthy (fst (fold on_opentag [manifest_tag, bare_gecko_project] (Undefined, Pending)))"
  using xml_scan_undefined_revision
      [of "with_file ''/tmp/t1/sources.xml'' (xml_file [manifest_tag, bare_gecko_project])"
          "''/tmp/t1/sources.xml''" "xml_file [manifest_tag, bare_gecko_project]"
          "[manifest_tag]" bare_gecko_project "[]"]
  by (simp add: examples is_gecko_project_def attribute_def)

section \<open>The INI scan\<close>

lemma split_nonempty: "split c s \<noteq> []"
  by (induction s) (auto split: list.splits)

lemma split_no_sep: "c \<notin> set k \<Longrightarrow> split c k = [k]"
  by (induction k) auto

lemma split_at_sep: "c \<notin> set k \<Longrightarrow> split c (k @ c # r) = k # split c r"
  by (induction k) (auto split: list.splits)

lemma index_second_piece:
  assumes "c \<notin> set k" and "c \<notin> set v" and "rest = [] \<or> (\<exists>r. rest = c # r)"
  shows "index (split c (k @ c # v @ rest)) 1 = Str v"
proof -
  have "split c (v @ rest) = [v] \<or> (\<exists>r. split c (v @ rest) = v # split c r)"
    using assms(2,3) by (auto simp: split_no_sep split_at_sep)
  then have "\<exists>ws. split c (v @ rest) = v # ws" by auto
  then show ?thesis
    using assms(1) by (auto simp: split_at_sep index_def)
qed

lemma some_line_skip:
  "\<forall>l\<in>set ls. indexOf l ''SourceStamp'' = - 1 \<Longrightarrow> some_line ls s = s"
  by (cases s, induction ls) auto

lemma some_line_settled: "p \<noteq> Pending \<Longrightarrow> snd (some_line ls (sha, p)) = p"
  by (induction ls) (auto simp: resolve_settled)

lemma some_line_first:
  assumes "\<forall>l\<in>set pre. indexOf l ''SourceStamp'' = - 1" and "indexOf line ''SourceStamp'' \<noteq> - 1"
  shows "some_line (pre @ line # post) (sha, p)
           = (index (split (CHR ''='') line) 1, resolve (index (split (CHR ''='') line) 1) p)"
  using assms by (induction pre) auto

lemma on_data_settled: "p \<noteq> Pending \<Longrightarrow> snd (fold on_data bs (sha, p)) = p"
proof (induction bs arbitrary: sha)
  case Nil
  then show ?case by simp
next
  case (Cons b bs)
  obtain sha' p' where s: "on_data b (sha, p) = (sha', p')" by (cases "on_data b (sha, p)")
  then have "p' = p" using some_line_settled [OF Cons.prems, of "split newline b" sha]
    by (simp add: on_data_def)
  with s Cons show ?case by simp
qed

lemma on_data_skip:
  "\<forall>l\<in>set (concat (map (split newline) bs)). indexOf l ''SourceStamp'' = - 1
     \<Longrightarrow> fold on_data bs s = s"
  by (induction bs arbitrary: s) (auto simp: on_data_def some_line_skip)

lemma on_data_first:
  assumes "concat (map (split newline) bs) = pre @ line # post"
    and "\<forall>l\<in>set pre. indexOf l ''SourceStamp'' = - 1"
    and "indexOf line ''SourceStamp'' \<noteq> - 1"
  shows "snd (fold on_data bs (sha, Pending)) = Fulfilled (index (split (CHR ''='') line) 1)"
  using assms
proof (induction bs arbitrary: pre sha)
  case Nil
  then show ?case by simp
next
  case (Cons b bs)
  show ?case
  proof (cases "\<forall>l\<in>set (split newline b). indexOf l ''SourceStamp'' = - 1")
    case True
    then have skip: "on_data b (sha, Pending) = (sha, Pending)"
      by (simp add: on_data_def some_line_skip)
    from Cons.prems(1) have eq: "split newline b @ concat (map (split newline) bs) = pre @ line # post"
      by simp
    have "\<exists>pre'. pre = split newline b @ pre' \<and> concat (map (split newline) bs) = pre' @ line # post"
    proof -
      from eq obtain us where
        "(split newline b = pre @ us \<and> us @ concat (map (split newline) bs) = line # post)
         \<or> (split newline b @ us = pre \<and> concat (map (split newline) bs) = us @ line # post)"
        by (auto simp: append_eq_append_conv2)
      then show ?thesis
      proof
        assume a: "split newline b = pre @ us \<and> us @ concat (map (split newline) bs) = line # post"
        show ?thesis
        proof (cases us)
          case Nil
          with a show ?thesis by auto
        next
          case (Cons u us')
          with a have "line \<in> set (split newline b)" by auto
          with True Cons.prems(3) show ?thesis by blast
        qed
      next
        assume "split newline b @ us = pre \<and> concat (map (split newline) bs) = us @ line # post"
        then show ?thesis by auto
      qed
    qed
    then obtain pre' where p: "pre = split newline b @ pre'"
      "concat (map (split newline) bs) = pre' @ line # post" by blast
    with Cons.prems(2) have "\<forall>l\<in>set pre'. indexOf l ''SourceStamp'' = - 1" by simp
    from Cons.IH [OF p(2) this Cons.prems(3)] skip show ?thesis by simp
  next
    case False
    then obtain a y c where b: "split newline b = a @ y # c"
      "\<forall>l\<in>set a. \<not> indexOf l ''SourceStamp'' \<noteq> - 1" "indexOf y ''SourceStamp'' \<noteq> - 1"
      using split_list_first_prop [of "split newline b" "\<lambda>l. indexOf l ''SourceStamp'' \<noteq> - 1"]
      by auto
    from Cons.prems(1) b(1) have eq: "a @ y # (c @ concat (map (split newline) bs)) = pre @ line # post"
      by simp
    have "y = line"
    proof -
      from eq obtain us where
        "(a = pre @ us \<and> us @ y # (c @ concat (map (split newline) bs)) = line # post)
         \<or> (a @ us = pre \<and> y # (c @ concat (map (split newline) bs)) = us @ line # post)"
        by (auto simp: append_eq_append_conv2)
      then show ?thesis
      proof
        assume h: "a = pre @ us \<and> us @ y # (c @ concat (map (split newline) bs)) = line # post"
        show ?thesis
        proof (cases us)
          case Nil
          with h show ?thesis by simp
        next
          case (Cons u us')
          with h have "line \<in> set a" by auto
          with b(2) Cons.prems(3) show ?thesis by blast
        qed
      next
        assume h: "a @ us = pre \<and> y # (c @ concat (map (split newline) bs)) = us @ line # post"
        show ?thesis
        proof (cases us)
          case Nil
          with h show ?thesis by simp
        next
          case (Cons u us')
          with h have "y \<in> set pre" by auto
          with Cons.prems(2) b(3) show ?thesis by blast
        qed
      qed
    qed
    have "on_data b (sha, Pending)
         = (index (split (CHR ''='') y) 1, Fulfilled (index (split (CHR ''='') y) 1))"
      using b some_line_first [of a y c sha Pending] by (simp add: on_data_def)
    with \<open>y = line\<close> show ?thesis by (simp add: on_data_settled)
  qed
qed

lemma ini_end_snd: "snd s \<noteq> Pending \<Longrightarrow> on_ini_end iniPath s = snd s"
  by (cases s) (simp add: reject_settled)

text \<open>
  Claim C3, as amended. The lines scanned are the lines of the buffers, buffer after
  buffer (for a file read as one buffer: the lines of the file). The scan takes the
  first of these lines that contains \<^verbatim>\<open>SourceStamp\<close>, splits it on \<^verbatim>\<open>=\<close> and resolves
  with the second piece: the text \<open>v\<close> between the first \<^verbatim>\<open>=\<close> and the next \<^verbatim>\<open>=\<close>, or
  the end of the line when there is no other. What follows a second \<^verbatim>\<open>=\<close> is dropped.
\<close>

theorem ini_scanner_second_piece:
  assumes "files st iniPath = Some f"
    and "concat (map (split newline) (buffers f)) = pre @ line # post"
    and "\<forall>l\<in>set pre. indexOf l ''SourceStamp'' = - 1"
    and "indexOf line ''SourceStamp'' \<noteq> - 1"
    and "line = k @ CHR ''='' # v @ rest"
    and "CHR ''='' \<notin> set k" and "CHR ''='' \<notin> set v"
    and "rest = [] \<or> (\<exists>r. rest = CHR ''='' # r)"
  shows "getGeckoRevisionFromIni iniPath st = Fulfilled (Str v)"
proof -
  let ?s = "fold on_data (buffers f) (Undefined, Pending)"
  have "index (split (CHR ''='') line) 1 = Str v"
    using assms(5-8) index_second_piece [of "CHR ''=''" k v rest] by simp
  with on_data_first [OF assms(2-4)] have s: "snd ?s = Fulfilled (Str v)"
    by simp
  then have "snd ?s \<noteq> Pending" by simp
  then have "on_ini_end iniPath ?s = snd ?s" by (rule ini_end_snd)
  with s assms(1) show ?thesis by (simp add: getGeckoRevisionFromIni_def)
qed

theorem ini_scanner_second_piece_witness:
  "getGeckoRevisionFromIni ''/tmp/t1/application.ini''
     (with_file ''/tmp/t1/application.ini'' (text_file stamp_ini)) = Fulfilled (Str ''a'')
   \<and> concat (map (split newline) stamp_ini) = [''FOO=1'', ''SourceStamp=a=b'', ''BAR=2'', '''']
   \<and> indexOf ''FOO=1'' ''SourceStamp'' = - 1
   \<and> indexOf ''SourceStamp=a=b'' ''SourceStamp'' = 0"
proof -
  let ?st = "with_file ''/tmp/t1/application.ini'' (text_file stamp_ini)"
  have h1: "files ?st ''/tmp/t1/application.ini'' = Some (text_file stamp_ini)"
    by (simp add: with_file_def)
  have lines: "concat (map (split newline) stamp_ini)
      = [''FOO=1'', ''SourceStamp=a=b'', ''BAR=2'', '''']"
    by code_simp
  have h2: "concat (map (split newline) (buffers (text_file stamp_ini)))
      = [''FOO=1''] @ ''SourceStamp=a=b'' # [''BAR=2'', '''']"
    using lines by (simp add: text_file_def)
  have i1: "indexOf ''FOO=1'' ''SourceStamp'' = - 1" by code_simp
  have i2: "indexOf ''SourceStamp=a=b'' ''SourceStamp'' = 0" by code_simp
  have h3: "\<forall>l\<in>set [''FOO=1'']. indexOf l ''SourceStamp'' = - 1" using i1 by simp
  have h4: "indexOf ''SourceStamp=a=b'' ''SourceStamp'' \<noteq> - 1" using i2 by simp
  have h5: "''SourceStamp=a=b'' = ''SourceStamp'' @ CHR ''='' # ''a'' @ ''=b''" by simp
  have h6: "CHR ''='' \<notin> set ''SourceStamp''" by simp
  have h7: "CHR ''='' \<notin> set ''a''" by simp
  have h8: "''=b'' = [] \<or> (\<exists>r. ''=b'' = CHR ''='' # r)" by simp
  from ini_scanner_second_piece [OF h1 h2 h3 h4 h5 h6 h7 h8] lines i1 i2
  show ?thesis by simp
qed

text \<open>
  For the line \<^verbatim>\<open>SourceStamp=a=b\<close> the result is \<^verbatim>\<open>a\<close>, not \<^verbatim>\<open>a=b\<close>: the scan does not
  return all that follows the first \<^verbatim>\<open>=\<close>.
\<close>

theorem ini_scanner_entire_rest_counterexample:
  "getGeckoRevisionFromIni ''/tmp/t1/application.ini''
     (with_file ''/tmp/t1/application.ini'' (text_file [''SourceStamp=a=b'']))
     = Fulfilled (Str ''a'')
   \<and> getGeckoRevisionFromIni ''/tmp/t1/application.ini''
     (with_file ''/tmp/t1/application.ini'' (text_file [''SourceStamp=a=b'']))
     \<noteq> Fulfilled (Str ''a=b'')"
  by code_simp

text \<open>
  Claim C9. The content \<^verbatim>\<open>SourceStamp=deadbeef\<close> with its newline, in one buffer, yields
  \<^verbatim>\<open>deadbeef\<close>. The same content in two buffers cut inside the value yields \<^verbatim>\<open>dead\<close>, and
  cut inside the key it is rejected as not found: each buffer is split into lines on
  its own and nothing is carried over from one buffer to the next.
\<close>

theorem ini_scanner_chunk_boundary:
  "concat [''SourceStamp=dead'', ''beef'' @ [newline]] = ''SourceStamp=deadbeef'' @ [newline]
   \<and> concat [''SourceSt'', ''amp=deadbeef'' @ [newline]] = ''SourceStamp=deadbeef'' @ [newline]
   \<and> getGeckoRevisionFromIni ''/tmp/t1/application.ini''
       (with_file ''/tmp/t1/application.ini'' (text_file [''SourceStamp=deadbeef'' @ [newline]]))
       = Fulfilled (Str ''deadbeef'')
   \<and> getGeckoRevisionFromIni ''/tmp/t1/application.ini''
       (with_file ''/tmp/t1/application.ini''
          (text_file [''SourceStamp=dead'', ''beef'' @ [newline]]))
       = Fulfilled (Str ''dead'')
   \<and> getGeckoRevisionFromIni ''/tmp/t1/application.ini''
       (with_file ''/tmp/t1/application.ini''
          (text_file [''SourceSt'', ''amp=deadbeef'' @ [newline]]))
       = Rejected (Reason ''Unable to find revision in /tmp/t1/application.ini'')"
  by code_simp

section \<open>Retrieval and the two fallback chains\<close>

lemma pullToTemp_cache:
  "pullToTemp util dev dir file st = (p, st') \<Longrightarrow>
     geckoRevision st' = geckoRevision st \<and> gaiaRevision st' = gaiaRevision st"
  by (auto simp: pullToTemp_def pull_def Let_def split: pull_outcome.splits)

lemma pullToTemp_retrievals:
  "pullToTemp util dev dir file st = (p, st') \<Longrightarrow>
     retrievals (trace st') = retrievals (trace st) @ [(dir, file)]"
  by (auto simp: pullToTemp_def pull_def Let_def retrievals_def split: pull_outcome.splits)

lemma pullToTemp_settles: "fst (pullToTemp util dev dir file st) \<noteq> Pending"
  by (auto simp: pullToTemp_def Let_def split: pull_outcome.splits)

lemma pullToTemp_result:
  "fst (pullToTemp util dev dir file st) = fst (pullToTemp util dev dir file st')"
  by (auto simp: pullToTemp_def Let_def split: pull_outcome.splits)

lemma pullApplicationZip_first:
  assumes "pullToTemp util dev B2G_SETTINGS APPLICATION_ZIP st = (Fulfilled d, st1)"
  shows "pullApplicationZip util dev st = (Fulfilled d, st1)"
  using assms by (simp add: pullApplicationZip_def)

lemma pullApplicationZip_second:
  assumes "pullToTemp util dev B2G_SETTINGS APPLICATION_ZIP st = (Rejected e, st1)"
  shows "pullApplicationZip util dev st = pullToTemp util dev DATA_LOCAL_SETTINGS APPLICATION_ZIP st1"
  using assms by (simp add: pullApplicationZip_def)

lemma pullB2GIni_first:
  assumes "pullToTemp util dev SYSTEM_B2G APPLICATION_INI st = (Fulfilled d, st1)"
  shows "pullB2GIni util dev st = (Fulfilled (path_join d APPLICATION_INI), st1)"
  using assms by (simp add: pullB2GIni_def read_identifier_def)

lemma pullB2GIni_second:
  assumes "pullToTemp util dev SYSTEM_B2G APPLICATION_INI st = (Rejected e, st1)"
    and "pullToTemp util dev SYSTEM_B2G PLATFORM_INI st1 = (p, st2)"
  shows "pullB2GIni util dev st =
     (case p of Fulfilled d \<Rightarrow> Pending | Rejected e2 \<Rightarrow> Rejected e2 | Pending \<Rightarrow> Pending, st2)"
  using assms by (simp add: pullB2GIni_def read_identifier_def split: promise.splits)

text \<open>
  Claim C6. The two fallback chains of the source are \<^verbatim>\<open>pullApplicationZip\<close>, over the
  candidates \<open>zip_candidates\<close>, and \<^verbatim>\<open>pullB2GIni\<close>, over \<open>ini_candidates\<close>; the retriever
  is \<^verbatim>\<open>pullToTemp\<close>. For each chain, every device and every state: when the retrieval of
  the first candidate is fulfilled, the chain is fulfilled and leaves the state of that
  one retrieval, so the only retriever call it adds to the trace is the first
  candidate's; when the retrievals of both candidates are rejected, the chain is
  rejected with the error of the last one, and the retriever calls it adds are the
  candidates, once each, in their declared order.
\<close>

theorem location_fallback:
  "(let zip1 = pullToTemp util dev B2G_SETTINGS APPLICATION_ZIP st;
        zip2 = pullToTemp util dev DATA_LOCAL_SETTINGS APPLICATION_ZIP (snd zip1);
        zip = pullApplicationZip util dev st
    in (fst zip1 = Fulfilled d \<longrightarrow>
          zip = (Fulfilled d, snd zip1)
          \<and> retrievals (trace (snd zip)) = retrievals (trace st) @ [hd zip_candidates])
     \<and> (fst zip1 = Rejected e1 \<and> fst zip2 = Rejected e2 \<longrightarrow>
          fst zip = Rejected e2
          \<and> retrievals (trace (snd zip)) = retrievals (trace st) @ zip_candidates))
 \<and> (let ini1 = pullToTemp util dev SYSTEM_B2G APPLICATION_INI st;
        ini2 = pullToTemp util dev SYSTEM_B2G PLATFORM_INI (snd ini1);
        ini = pullB2GIni util dev st
    in (fst ini1 = Fulfilled d \<longrightarrow>
          ini = (Fulfilled (path_join d APPLICATION_INI), snd ini1)
          \<and> retrievals (trace (snd ini)) = retrievals (trace st) @ [hd ini_candidates])
     \<and> (fst ini1 = Rejected e1 \<and> fst ini2 = Rejected e2 \<longrightarrow>
          fst ini = Rejected e2
          \<and> retrievals (trace (snd ini)) = retrievals (trace st) @ ini_candidates))"
proof -
  obtain p1 s1 where z1: "pullToTemp util dev B2G_SETTINGS APPLICATION_ZIP st = (p1, s1)"
    by (cases "pullToTemp util dev B2G_SETTINGS APPLICATION_ZIP st")
  obtain p2 s2 where z2: "pullToTemp util dev DATA_LOCAL_SETTINGS APPLICATION_ZIP s1 = (p2, s2)"
    by (cases "pullToTemp util dev DATA_LOCAL_SETTINGS APPLICATION_ZIP s1")
  obtain q1 t1 where i1: "pullToTemp util dev SYSTEM_B2G APPLICATION_INI st = (q1, t1)"
    by (cases "pullToTemp util dev SYSTEM_B2G APPLICATION_INI st")
  obtain q2 t2 where i2: "pullToTemp util dev SYSTEM_B2G PLATFORM_INI t1 = (q2, t2)"
    by (cases "pullToTemp util dev SYSTEM_B2G PLATFORM_INI t1")
  note r = pullToTemp_retrievals
  have a: "pullApplicationZip util dev st = (Fulfilled d, s1)
      \<and> retrievals (trace s1) = retrievals (trace st) @ [hd zip_candidates]"
    if "p1 = Fulfilled d"
    using that z1 r [OF z1] by (simp add: pullApplicationZip_first zip_candidates_def)
  have b: "fst (pullApplicationZip util dev st) = Rejected e2
      \<and> retrievals (trace (snd (pullApplicationZip util dev st)))
          = retrievals (trace st) @ zip_candidates"
    if "p1 = Rejected e1" "p2 = Rejected e2"
    using that z1 z2 r [OF z1] r [OF z2]
    by (simp add: pullApplicationZip_second zip_candidates_def)
  have c: "pullB2GIni util dev st = (Fulfilled (path_join d APPLICATION_INI), t1)
      \<and> retrievals (trace t1) = retrievals (trace st) @ [hd ini_candidates]"
    if "q1 = Fulfilled d"
    using that i1 r [OF i1] by (simp add: pullB2GIni_first ini_candidates_def)
  have e: "fst (pullB2GIni util dev st) = Rejected e2
      \<and> retrievals (trace (snd (pullB2GIni util dev st)))
          = retrievals (trace st) @ ini_candidates"
    if "q1 = Rejected e1" "q2 = Rejected e2"
    using that i1 i2 r [OF i1] r [OF i2] pullB2GIni_second [of util dev st e1 t1 q2 t2]
    by (simp add: ini_candidates_def)
  from a b c e show ?thesis
    by (simp add: Let_def z1 z2 i1 i2)
qed

theorem location_fallback_witness:
  "fst (pullApplicationZip util1 dev_primary initial) = Fulfilled ''/tmp/raptor-temp-1''
   \<and> retrievals (trace (snd (pullApplicationZip util1 dev_primary initial)))
       = [(B2G_SETTINGS, APPLICATION_ZIP)]
   \<and> fst (pullApplicationZip util1 unreachable initial)
       = Rejected (Error
           ''remote object /data/local/webapps/settings.gaiamobile.org/application.zip does not exist'')
   \<and> retrievals (trace (snd (pullApplicationZip util1 unreachable initial)))
       = [(B2G_SETTINGS, APPLICATION_ZIP), (DATA_LOCAL_SETTINGS, APPLICATION_ZIP)]
   \<and> fst (pullB2GIni util1 dev_primary initial) = Fulfilled ''/tmp/raptor-temp-2/application.ini''
   \<and> retrievals (trace (snd (pullB2GIni util1 dev_primary initial)))
       = [(SYSTEM_B2G, APPLICATION_INI)]
   \<and> fst (pullB2GIni util1 unreachable initial)
       = Rejected (Error ''remote object /system/b2g/platform.ini does not exist'')
   \<and> retrievals (trace (snd (pullB2GIni util1 unreachable initial)))
       = [(SYSTEM_B2G, APPLICATION_INI), (SYSTEM_B2G, PLATFORM_INI)]"
proof -
  have z1: "fst (pullToTemp util1 dev_primary B2G_SETTINGS APPLICATION_ZIP initial)
      = Fulfilled ''/tmp/raptor-temp-1''" by code_simp
  have i1: "fst (pullToTemp util1 dev_primary SYSTEM_B2G APPLICATION_INI initial)
      = Fulfilled ''/tmp/raptor-temp-2''" by code_simp
  have y1: "fst (pullToTemp util1 unreachable B2G_SETTINGS APPLICATION_ZIP initial)
      = Rejected (Error
          ''remote object /system/b2g/webapps/settings.gaiamobile.org/application.zip does not exist'')"
    by code_simp
  have y2: "fst (pullToTemp util1 unreachable DATA_LOCAL_SETTINGS APPLICATION_ZIP
        (snd (pullToTemp util1 unreachable B2G_SETTINGS APPLICATION_ZIP initial)))
      = Rejected (Error
          ''remote object /data/local/webapps/settings.gaiamobile.org/application.zip does not exist'')"
    by code_simp
  have j1: "fst (pullToTemp util1 unreachable SYSTEM_B2G APPLICATION_INI initial)
      = Rejected (Error ''remote object /system/b2g/application.ini does not exist'')"
    by code_simp
  have j2: "fst (pullToTemp util1 unreachable SYSTEM_B2G PLATFORM_INI
        (snd (pullToTemp util1 unreachable SYSTEM_B2G APPLICATION_INI initial)))
      = Rejected (Error ''remote object /system/b2g/platform.ini does not exist'')"
    by code_simp
  have t0: "retrievals (trace initial) = []" by (simp add: initial_def retrievals_def)
  have p: "path_join ''/tmp/raptor-temp-2'' APPLICATION_INI = ''/tmp/raptor-temp-2/application.ini''"
    by (simp add: PATHS)
  note a = location_fallback [of util1 dev_primary initial, unfolded Let_def]
  note b = location_fallback [of util1 unreachable initial, unfolded Let_def]
  note a1 = a [THEN conjunct1, THEN conjunct1, THEN mp, OF z1]
  note a2 = a [THEN conjunct2, THEN conjunct1, THEN mp, OF i1]
  note b1 = b [THEN conjunct1, THEN conjunct2, THEN mp, OF conjI [OF y1 y2]]
  note b2 = b [THEN conjunct2, THEN conjunct2, THEN mp, OF conjI [OF j1 j2]]
  have c1: "fst (pullApplicationZip util1 dev_primary initial) = Fulfilled ''/tmp/raptor-temp-1''"
    using a1 [THEN conjunct1] by simp
  have c2: "retrievals (trace (snd (pullApplicationZip util1 dev_primary initial)))
       = [(B2G_SETTINGS, APPLICATION_ZIP)]"
    using a1 [THEN conjunct2] by (simp add: t0 zip_candidates_def)
  have c3: "fst (pullB2GIni util1 dev_primary initial) = Fulfilled ''/tmp/raptor-temp-2/application.ini''"
    using a2 [THEN conjunct1] by (simp add: p)
  have c4: "retrievals (trace (snd (pullB2GIni util1 dev_primary initial)))
       = [(SYSTEM_B2G, APPLICATION_INI)]"
    using a2 [THEN conjunct2] by (simp add: t0 ini_candidates_def)
  have c5: "fst (pullApplicationZip util1 unreachable initial)
       = Rejected (Error
           ''remote object /data/local/webapps/settings.gaiamobile.org/application.zip does not exist'')"
    using b1 [THEN conjunct1] by simp
  have c6: "retrievals (trace (snd (pullApplicationZip util1 unreachable initial)))
       = [(B2G_SETTINGS, APPLICATION_ZIP), (DATA_LOCAL_SETTINGS, APPLICATION_ZIP)]"
    using b1 [THEN conjunct2] by (simp add: t0 zip_candidates_def)
  have c7: "fst (pullB2GIni util1 unreachable initial)
       = Rejected (Error ''remote object /system/b2g/platform.ini does not exist'')"
    using b2 [THEN conjunct1] by simp
  have c8: "retrievals (trace (snd (pullB2GIni util1 unreachable initial)))
       = [(SYSTEM_B2G, APPLICATION_INI), (SYSTEM_B2G, PLATFORM_INI)]"
    using b2 [THEN conjunct2] by (simp add: t0 ini_candidates_def)
  from c1 c2 c3 c4 c5 c6 c7 c8 show ?thesis by simp
qed

section \<open>The Gecko resolution\<close>

lemma pullB2GIni_cache:
  "pullB2GIni util dev st = (p, st') \<Longrightarrow>
     geckoRevision st' = geckoRevision st \<and> gaiaRevision st' = gaiaRevision st"
proof -
  assume a: "pullB2GIni util dev st = (p, st')"
  obtain q1 t1 where i1: "pullToTemp util dev SYSTEM_B2G APPLICATION_INI st = (q1, t1)"
    by (cases "pullToTemp util dev SYSTEM_B2G APPLICATION_INI st")
  obtain q2 t2 where i2: "pullToTemp util dev SYSTEM_B2G PLATFORM_INI t1 = (q2, t2)"
    by (cases "pullToTemp util dev SYSTEM_B2G PLATFORM_INI t1")
  from a i1 i2 have "st' = t1 \<or> st' = t2"
    by (auto simp: pullB2GIni_def read_identifier_def split: promise.splits)
  with pullToTemp_cache [OF i1] pullToTemp_cache [OF i2] show ?thesis by auto
qed

lemma pullB2GIni_retrievals:
  "pullB2GIni util dev st = (p, st') \<Longrightarrow>
     retrievals (trace st') = retrievals (trace st) @ [(SYSTEM_B2G, APPLICATION_INI)]
     \<or> retrievals (trace st') = retrievals (trace st) @ ini_candidates"
proof -
  assume a: "pullB2GIni util dev st = (p, st')"
  obtain q1 t1 where i1: "pullToTemp util dev SYSTEM_B2G APPLICATION_INI st = (q1, t1)"
    by (cases "pullToTemp util dev SYSTEM_B2G APPLICATION_INI st")
  obtain q2 t2 where i2: "pullToTemp util dev SYSTEM_B2G PLATFORM_INI t1 = (q2, t2)"
    by (cases "pullToTemp util dev SYSTEM_B2G PLATFORM_INI t1")
  from a i1 i2 have "st' = t1 \<or> st' = t2"
    by (auto simp: pullB2GIni_def read_identifier_def split: promise.splits)
  with pullToTemp_retrievals [OF i1] pullToTemp_retrievals [OF i2] show ?thesis
    by (auto simp: ini_candidates_def)
qed

lemma pullFromIni_unfold:
  "pullB2GIni util dev st = (p, st') \<Longrightarrow>
     pullFromIni util dev st =
       (case p of Fulfilled iniPath \<Rightarrow> getGeckoRevisionFromIni iniPath st'
                | Rejected e \<Rightarrow> Rejected e | Pending \<Rightarrow> Pending, st')"
  by (simp add: pullFromIni_def split: promise.splits)

lemma sources_not_ini: "(SYSTEM, SOURCES_XML) \<notin> set ini_candidates"
  by (simp add: ini_candidates_def PATHS)

lemma getGeckoRevision_miss:
  "\<not> truthy (geckoRevision st) \<Longrightarrow> geckoPromise util dev st = (p, st') \<Longrightarrow>
     getGeckoRevision util dev st =
       (p, case p of Fulfilled sha \<Rightarrow> st'\<lparr>geckoRevision := sha\<rparr> | _ \<Rightarrow> st')"
  by (simp add: getGeckoRevision_def split: promise.splits)

lemma geckoPromise_unfold:
  assumes "pullToTemp util dev SYSTEM SOURCES_XML st = (p1, s1)"
  shows "geckoPromise util dev st =
     (case p1 of
        Fulfilled d \<Rightarrow>
          (case getGeckoRevisionFromXml (path_join d SOURCES_XML) s1 of
             Fulfilled sha \<Rightarrow> (Fulfilled sha, s1)
           | Rejected e \<Rightarrow> pullFromIni util dev s1
           | Pending \<Rightarrow> (Pending, s1))
      | Rejected e \<Rightarrow> pullFromIni util dev s1
      | Pending \<Rightarrow> (Pending, s1))"
  using assms by (simp add: geckoPromise_def split: promise.splits)

lemma geckoPromise_state:
  assumes "pullToTemp util dev SYSTEM SOURCES_XML st = (p1, s1)"
    and "geckoPromise util dev st = (p, st')"
  shows "st' = s1 \<or> st' = snd (pullB2GIni util dev s1)"
proof -
  obtain q t where i: "pullB2GIni util dev s1 = (q, t)" by (cases "pullB2GIni util dev s1")
  from assms(2) show ?thesis
    unfolding geckoPromise_unfold [OF assms(1)] pullFromIni_unfold [OF i]
    by (auto simp: i split: promise.splits)
qed

lemma geckoPromise_cache:
  assumes "geckoPromise util dev st = (p, st')"
  shows "geckoRevision st' = geckoRevision st \<and> gaiaRevision st' = gaiaRevision st"
proof -
  obtain p1 s1 where x: "pullToTemp util dev SYSTEM SOURCES_XML st = (p1, s1)"
    by (cases "pullToTemp util dev SYSTEM SOURCES_XML st")
  obtain q t where i: "pullB2GIni util dev s1 = (q, t)" by (cases "pullB2GIni util dev s1")
  from geckoPromise_state [OF x assms] i have "st' = s1 \<or> st' = t" by simp
  with pullToTemp_cache [OF x] pullB2GIni_cache [OF i] show ?thesis by auto
qed

lemma geckoPromise_retrievals:
  assumes "geckoPromise util dev st = (p, st')"
  shows "\<exists>rest. retrievals (trace st') = retrievals (trace st) @ (SYSTEM, SOURCES_XML) # rest
           \<and> (SYSTEM, SOURCES_XML) \<notin> set rest"
proof -
  obtain p1 s1 where x: "pullToTemp util dev SYSTEM SOURCES_XML st = (p1, s1)"
    by (cases "pullToTemp util dev SYSTEM SOURCES_XML st")
  obtain q t where i: "pullB2GIni util dev s1 = (q, t)" by (cases "pullB2GIni util dev s1")
  from geckoPromise_state [OF x assms] i have "st' = s1 \<or> st' = t" by simp
  then show ?thesis
  proof
    assume "st' = s1"
    with pullToTemp_retrievals [OF x] show ?thesis by simp
  next
    assume "st' = t"
    with pullToTemp_retrievals [OF x] pullB2GIni_retrievals [OF i] sources_not_ini
    show ?thesis by (auto simp: ini_candidates_def)
  qed
qed

text \<open>
  What \<^verbatim>\<open>getGeckoRevision\<close> does around \<^verbatim>\<open>pullB2GIni\<close>, whatever that does. On a cache
  miss it first retrieves \<^verbatim>\<open>sources.xml\<close> from \<^verbatim>\<open>/system\<close>, and no later retriever call
  of the request is for that candidate again.
  When that retrieval is fulfilled and the XML scan of the retrieved file is fulfilled,
  the request is fulfilled with the scanned value, which is cached, and nothing else is
  retrieved. When the retrieval is rejected, or the scan is, the request continues with
  \<^verbatim>\<open>pullB2GIni\<close> on the state the retrieval left: the request's result is the INI scan of
  the path \<^verbatim>\<open>pullB2GIni\<close> is fulfilled with, and the rejection of \<^verbatim>\<open>pullB2GIni\<close> when it is
  rejected. A rejected request leaves both cache fields as they were; a fulfilled one
  has stored its value. Nothing is said here of a \<^verbatim>\<open>pullB2GIni\<close> that stays pending.
\<close>

lemma gecko_state_machine:
  assumes "\<not> truthy (geckoRevision st)"
  shows "let xml = pullToTemp util dev SYSTEM SOURCES_XML st;
             ini = pullB2GIni util dev (snd xml);
             r = getGeckoRevision util dev st
         in (\<exists>rest. retrievals (trace (snd r))
                      = retrievals (trace st) @ (SYSTEM, SOURCES_XML) # rest
                    \<and> (SYSTEM, SOURCES_XML) \<notin> set rest)
          \<and> (fst xml = Fulfilled d
               \<and> getGeckoRevisionFromXml (path_join d SOURCES_XML) (snd xml) = Fulfilled sha
              \<longrightarrow> r = (Fulfilled sha, (snd xml)\<lparr>geckoRevision := sha\<rparr>))
          \<and> ((\<exists>e. fst xml = Rejected e)
               \<or> (fst xml = Fulfilled d
                   \<and> (\<exists>e. getGeckoRevisionFromXml (path_join d SOURCES_XML) (snd xml) = Rejected e))
              \<longrightarrow> (\<forall>iniPath. fst ini = Fulfilled iniPath
                       \<longrightarrow> fst r = getGeckoRevisionFromIni iniPath (snd ini))
                  \<and> (\<forall>e. fst ini = Rejected e \<longrightarrow> fst r = Rejected e)
                  \<and> trace (snd r) = trace (snd ini))
          \<and> (\<forall>e. fst r = Rejected e
                \<longrightarrow> geckoRevision (snd r) = geckoRevision st
                    \<and> gaiaRevision (snd r) = gaiaRevision st)
          \<and> (\<forall>v. fst r = Fulfilled v \<longrightarrow> geckoRevision (snd r) = v)"
proof -
  obtain p1 s1 where x: "pullToTemp util dev SYSTEM SOURCES_XML st = (p1, s1)"
    by (cases "pullToTemp util dev SYSTEM SOURCES_XML st")
  obtain q t where i: "pullB2GIni util dev s1 = (q, t)" by (cases "pullB2GIni util dev s1")
  obtain p st' where g: "geckoPromise util dev st = (p, st')"
    by (cases "geckoPromise util dev st")
  note r = getGeckoRevision_miss [OF assms g]
  have tr: "trace (snd (getGeckoRevision util dev st)) = trace st'"
    by (simp add: r split: promise.splits)
  have a: "\<exists>rest. retrievals (trace (snd (getGeckoRevision util dev st)))
                      = retrievals (trace st) @ (SYSTEM, SOURCES_XML) # rest
                    \<and> (SYSTEM, SOURCES_XML) \<notin> set rest"
    using geckoPromise_retrievals [OF g] by (simp only: tr)
  have b: "getGeckoRevision util dev st = (Fulfilled sha, s1\<lparr>geckoRevision := sha\<rparr>)"
    if "p1 = Fulfilled d" "getGeckoRevisionFromXml (path_join d SOURCES_XML) s1 = Fulfilled sha"
  proof -
    from that have "geckoPromise util dev st = (Fulfilled sha, s1)"
      by (simp add: geckoPromise_unfold [OF x])
    from getGeckoRevision_miss [OF assms this] show ?thesis by simp
  qed
  have fall: "geckoPromise util dev st = pullFromIni util dev s1"
    if "(\<exists>e. p1 = Rejected e)
        \<or> (p1 = Fulfilled d \<and> (\<exists>e. getGeckoRevisionFromXml (path_join d SOURCES_XML) s1 = Rejected e))"
    using that by (auto simp: geckoPromise_unfold [OF x])
  have c: "(\<forall>iniPath. q = Fulfilled iniPath
              \<longrightarrow> fst (getGeckoRevision util dev st) = getGeckoRevisionFromIni iniPath t)
         \<and> (\<forall>e. q = Rejected e \<longrightarrow> fst (getGeckoRevision util dev st) = Rejected e)
         \<and> trace (snd (getGeckoRevision util dev st)) = trace t"
    if "(\<exists>e. p1 = Rejected e)
        \<or> (p1 = Fulfilled d \<and> (\<exists>e. getGeckoRevisionFromXml (path_join d SOURCES_XML) s1 = Rejected e))"
  proof -
    from fall [OF that] g have "(p, st') = pullFromIni util dev s1" by simp
    then have "p = (case q of Fulfilled iniPath \<Rightarrow> getGeckoRevisionFromIni iniPath t
                | Rejected e \<Rightarrow> Rejected e | Pending \<Rightarrow> Pending)" "st' = t"
      by (simp_all add: pullFromIni_unfold [OF i])
    then have "fst (getGeckoRevision util dev st)
          = (case q of Fulfilled iniPath \<Rightarrow> getGeckoRevisionFromIni iniPath t
                | Rejected e \<Rightarrow> Rejected e | Pending \<Rightarrow> Pending)"
      and "trace (snd (getGeckoRevision util dev st)) = trace t"
      using tr by (simp_all add: r)
    then show ?thesis by simp
  qed
  have e: "\<forall>e. fst (getGeckoRevision util dev st) = Rejected e
                \<longrightarrow> geckoRevision (snd (getGeckoRevision util dev st)) = geckoRevision st
                    \<and> gaiaRevision (snd (getGeckoRevision util dev st)) = gaiaRevision st"
    using geckoPromise_cache [OF g] by (auto simp: r)
  have f: "\<forall>v. fst (getGeckoRevision util dev st) = Fulfilled v
              \<longrightarrow> geckoRevision (snd (getGeckoRevision util dev st)) = v"
    by (auto simp: r)
  from a b c e f show ?thesis
    by (simp add: Let_def x i)
qed

lemma gecko_state_machine_witness:
  "\<not> truthy (geckoRevision initial)
   \<and> getGeckoRevisionFromXml ''/tmp/raptor-temp-1/sources.xml''
        (snd (pullToTemp util1 dev_manifest SYSTEM SOURCES_XML initial)) = Fulfilled (Str ''abc123'')
   \<and> fst (getGeckoRevision util1 dev_manifest initial) = Fulfilled (Str ''abc123'')
   \<and> geckoRevision (snd (getGeckoRevision util1 dev_manifest initial)) = Str ''abc123''
   \<and> fst (getGeckoRevision util1 dev_primary initial) = Fulfilled (Str ''cafef00d'')
   \<and> fst (getGeckoRevision util1 unreachable initial)
       = Rejected (Error ''remote object /system/b2g/platform.ini does not exist'')
   \<and> geckoRevision (snd (getGeckoRevision util1 unreachable initial)) = Null"
proof -
  have h0: "\<not> truthy (geckoRevision initial)" by (simp add: initial_def)
  have g0: "geckoRevision initial = Null" by (simp add: initial_def)
  have x1: "fst (pullToTemp util1 dev_manifest SYSTEM SOURCES_XML initial)
      = Fulfilled ''/tmp/raptor-temp-1''" by code_simp
  have p: "path_join ''/tmp/raptor-temp-1'' SOURCES_XML = ''/tmp/raptor-temp-1/sources.xml''"
    by (simp add: PATHS)
  have x2: "getGeckoRevisionFromXml ''/tmp/raptor-temp-1/sources.xml''
        (snd (pullToTemp util1 dev_manifest SYSTEM SOURCES_XML initial)) = Fulfilled (Str ''abc123'')"
    by code_simp
  have y1: "fst (pullToTemp util1 dev_primary SYSTEM SOURCES_XML initial)
      = Rejected (Error ''remote object /system/sources.xml does not exist'')" by code_simp
  have y2: "fst (pullB2GIni util1 dev_primary
        (snd (pullToTemp util1 dev_primary SYSTEM SOURCES_XML initial)))
      = Fulfilled ''/tmp/raptor-temp-2/application.ini''" by code_simp
  have y3: "getGeckoRevisionFromIni ''/tmp/raptor-temp-2/application.ini''
        (snd (pullB2GIni util1 dev_primary
           (snd (pullToTemp util1 dev_primary SYSTEM SOURCES_XML initial))))
      = Fulfilled (Str ''cafef00d'')" by code_simp
  have z1: "fst (pullToTemp util1 unreachable SYSTEM SOURCES_XML initial)
      = Rejected (Error ''remote object /system/sources.xml does not exist'')" by code_simp
  have z2: "fst (pullB2GIni util1 unreachable
        (snd (pullToTemp util1 unreachable SYSTEM SOURCES_XML initial)))
      = Rejected (Error ''remote object /system/b2g/platform.ini does not exist'')" by code_simp
  note a = gecko_state_machine [OF h0, of util1 dev_manifest "''/tmp/raptor-temp-1''" "Str ''abc123''",
      unfolded Let_def]
  note b = gecko_state_machine [OF h0, of util1 dev_primary, unfolded Let_def]
  note c = gecko_state_machine [OF h0, of util1 unreachable, unfolded Let_def]
  from a x1 x2 have r1: "fst (getGeckoRevision util1 dev_manifest initial) = Fulfilled (Str ''abc123'')"
    by (simp add: p)
  with a have r2: "geckoRevision (snd (getGeckoRevision util1 dev_manifest initial)) = Str ''abc123''"
    by simp
  from b y1 y2 y3 have r3: "fst (getGeckoRevision util1 dev_primary initial) = Fulfilled (Str ''cafef00d'')"
    by simp
  from c z1 z2 have r4: "fst (getGeckoRevision util1 unreachable initial)
       = Rejected (Error ''remote object /system/b2g/platform.ini does not exist'')"
    by simp
  with c g0 have r5: "geckoRevision (snd (getGeckoRevision util1 unreachable initial)) = Null"
    by simp
  from h0 x2 r1 r2 r3 r4 r5 show ?thesis by simp
qed

text \<open>
  The branch left out above: \<^verbatim>\<open>sources.xml\<close> and \<^verbatim>\<open>application.ini\<close> are not retrieved and
  \<^verbatim>\<open>platform.ini\<close> is. Then \<^verbatim>\<open>pullB2GIni\<close> stays pending, whatever the file holds, and the
  request with it: no INI scan is run and the request neither resolves nor fails.
\<close>

lemma gecko_platform_ini_pending:
  assumes "\<not> truthy (geckoRevision st)"
    and "pullToTemp util dev SYSTEM SOURCES_XML st = (Rejected e0, s1)"
    and "pullToTemp util dev SYSTEM_B2G APPLICATION_INI s1 = (Rejected e1, s2)"
    and "pullToTemp util dev SYSTEM_B2G PLATFORM_INI s2 = (Fulfilled d, s3)"
  shows "getGeckoRevision util dev st = (Pending, s3)"
proof -
  have "pullB2GIni util dev s1 = (Pending, s3)"
    using pullB2GIni_second [OF assms(3) assms(4)] by simp
  then have "pullFromIni util dev s1 = (Pending, s3)"
    by (simp add: pullFromIni_def)
  then have "geckoPromise util dev st = (Pending, s3)"
    by (simp add: geckoPromise_unfold [OF assms(2)])
  from getGeckoRevision_miss [OF assms(1) this] show ?thesis by simp
qed

text \<open>
  Claim C5. A device without \<^verbatim>\<open>sources.xml\<close> and without \<^verbatim>\<open>application.ini\<close>, whose
  \<^verbatim>\<open>platform.ini\<close> has no \<^verbatim>\<open>SourceStamp\<close> line. The retrieval of \<^verbatim>\<open>sources.xml\<close> is
  rejected and the request goes on to \<^verbatim>\<open>pullB2GIni\<close>, which retrieves \<^verbatim>\<open>platform.ini\<close>. The
  INI scan of the retrieved file, were it run, would reject as not found: the INI
  fallback has nothing to give. But the scan is not run and the request is not
  rejected: it stays pending, so the Gecko resolution does not fail.
\<close>

theorem gecko_fallback_never_fails:
  "fst (pullToTemp util1 dev_platform_no_stamp SYSTEM SOURCES_XML initial)
       = Rejected (Error ''remote object /system/sources.xml does not exist'')
   \<and> retrievals (trace (snd (getGeckoRevision util1 dev_platform_no_stamp initial)))
       = [(SYSTEM, SOURCES_XML), (SYSTEM_B2G, APPLICATION_INI), (SYSTEM_B2G, PLATFORM_INI)]
   \<and> fst (pullB2GIni util1 dev_platform_no_stamp
           (snd (pullToTemp util1 dev_platform_no_stamp SYSTEM SOURCES_XML initial))) = Pending
   \<and> getGeckoRevisionFromIni ''/tmp/raptor-temp-3/platform.ini''
         (snd (getGeckoRevision util1 dev_platform_no_stamp initial))
       = Rejected (Reason ''Unable to find revision in /tmp/raptor-temp-3/platform.ini'')
   \<and> fst (getGeckoRevision util1 dev_platform_no_stamp initial) = Pending
   \<and> fst (getGeckoRevision util1 dev_platform_no_stamp initial)
       \<noteq> Rejected (Reason ''Unable to find revision in /tmp/raptor-temp-3/platform.ini'')
   \<and> geckoRevision (snd (getGeckoRevision util1 dev_platform_no_stamp initial)) = Null"
  by code_simp

text \<open>
  Claim C2. A device that has no \<^verbatim>\<open>application.ini\<close> and has \<^verbatim>\<open>platform.ini\<close>: the first
  retrieval is rejected and the second is fulfilled, the file is in the temporary
  directory and the INI scan of it would find the revision; but the handler of the
  second retrieval reads \<^verbatim>\<open>tempDir\<close>, which its scope does not bind, so \<^verbatim>\<open>pullB2GIni\<close>
  stays pending, it is not fulfilled with the path of the retrieved file, and the
  Gecko resolution stays pending with it.
\<close>

theorem platform_ini_never_resolves:
  "fst (pullToTemp util1 dev_platform_only SYSTEM_B2G APPLICATION_INI initial)
       = Rejected (Error ''remote object /system/b2g/application.ini does not exist'')
   \<and> fst (pullToTemp util1 dev_platform_only SYSTEM_B2G PLATFORM_INI
           (snd (pullToTemp util1 dev_platform_only SYSTEM_B2G APPLICATION_INI initial)))
       = Fulfilled ''/tmp/raptor-temp-3''
   \<and> read_identifier [] ''tempDir'' = Inl (ReferenceError ''tempDir is not defined'')
   \<and> fst (pullB2GIni util1 dev_platform_only initial) = Pending
   \<and> fst (pullB2GIni util1 dev_platform_only initial)
       \<noteq> Fulfilled ''/tmp/raptor-temp-3/platform.ini''
   \<and> getGeckoRevisionFromIni ''/tmp/raptor-temp-3/platform.ini''
         (snd (pullB2GIni util1 dev_platform_only initial)) = Fulfilled (Str ''cafef00d'')
   \<and> fst (getGeckoRevision util1 dev_platform_only initial) = Pending"
  by code_simp

section \<open>The Gaia resolution\<close>

text \<open>
  Claim C1. A device whose Settings archive is retrieved at the first location and has
  no entry \<^verbatim>\<open>resources/gaia_commit.txt\<close>: \<^verbatim>\<open>readFileFromZip\<close> rejects with
  \<^verbatim>\<open>Zip file not found\<close>, but \<^verbatim>\<open>readGaiaCommit\<close> passes no rejection handler, so its promise
  and that of \<^verbatim>\<open>getGaiaRevision\<close> stay pending: the caller sees no failed result. The
  cache stays empty. (When the archive cannot be retrieved at either location, the
  request is rejected with the error of the second retrieval.)
\<close>

theorem gaia_missing_entry_never_settles:
  "fst (pullApplicationZip util1 dev_no_commit initial) = Fulfilled ''/tmp/raptor-temp-1''
   \<and> fst (readFileFromZip ''/tmp/raptor-temp-1/application.zip'' GAIA_COMMIT
           (snd (pullApplicationZip util1 dev_no_commit initial)))
       = Rejected (Error ''Zip file not found'')
   \<and> fst (readGaiaCommit ''/tmp/raptor-temp-1''
           (snd (pullApplicationZip util1 dev_no_commit initial))) = Pending
   \<and> fst (getGaiaRevision util1 dev_no_commit initial) = Pending
   \<and> gaiaRevision (snd (getGaiaRevision util1 dev_no_commit initial)) = Null
   \<and> fst (getGaiaRevision util1 unreachable initial)
       = Rejected (Error
           ''remote object /data/local/webapps/settings.gaiamobile.org/application.zip does not exist'')"
  by code_simp

text \<open>
  A commit entry without data: when its stream emits \<^verbatim>\<open>close\<close>, the handler of lines
  137-141 rejects; when it ends without \<^verbatim>\<open>close\<close>, nothing settles the promise.
\<close>

lemma gaia_empty_entry:
  "fst (getGaiaRevision util1 (dev_empty_commit True) initial)
       = Rejected (Error ''Unable to find revision in /tmp/raptor-temp-1/application.zip'')
   \<and> fst (getGaiaRevision util1 (dev_empty_commit False) initial) = Pending"
  by code_simp

section \<open>The revision cache\<close>

lemma pullApplicationZip_cache:
  assumes "pullApplicationZip util dev st = (p, st')"
  shows "geckoRevision st' = geckoRevision st \<and> gaiaRevision st' = gaiaRevision st"
proof -
  obtain p1 s1 where z1: "pullToTemp util dev B2G_SETTINGS APPLICATION_ZIP st = (p1, s1)"
    by (cases "pullToTemp util dev B2G_SETTINGS APPLICATION_ZIP st")
  obtain p2 s2 where z2: "pullToTemp util dev DATA_LOCAL_SETTINGS APPLICATION_ZIP s1 = (p2, s2)"
    by (cases "pullToTemp util dev DATA_LOCAL_SETTINGS APPLICATION_ZIP s1")
  from assms z1 z2 have "st' = s1 \<or> st' = s2"
    by (auto simp: pullApplicationZip_def split: promise.splits)
  with pullToTemp_cache [OF z1] pullToTemp_cache [OF z2] show ?thesis by auto
qed

lemma readFileFromZip_cache:
  "readFileFromZip zipPath filePath st = (p, st') \<Longrightarrow>
     geckoRevision st' = geckoRevision st \<and> gaiaRevision st' = gaiaRevision st
     \<and> trace st' = trace st"
  by (auto simp: readFileFromZip_def Let_def split: option.splits prod.splits)

lemma readGaiaCommit_cache:
  assumes "readGaiaCommit baseDir st = (p, st')"
  shows "geckoRevision st' = geckoRevision st \<and> gaiaRevision st' = gaiaRevision st
     \<and> trace st' = trace st"
proof -
  obtain q t where z: "readFileFromZip (path_join baseDir APPLICATION_ZIP) GAIA_COMMIT st = (q, t)"
    by (cases "readFileFromZip (path_join baseDir APPLICATION_ZIP) GAIA_COMMIT st")
  from assms z have "st' = t"
    by (auto simp: readGaiaCommit_def Let_def split: promise.splits)
  with readFileFromZip_cache [OF z] show ?thesis by simp
qed

lemma gaiaPromise_cache:
  assumes "gaiaPromise util dev st = (p, st')"
  shows "geckoRevision st' = geckoRevision st \<and> gaiaRevision st' = gaiaRevision st"
proof -
  obtain p1 s1 where z: "pullApplicationZip util dev st = (p1, s1)"
    by (cases "pullApplicationZip util dev st")
  show ?thesis
  proof (cases p1)
    case (Fulfilled d)
    with assms z have "readGaiaCommit d s1 = (p, st')" by (simp add: gaiaPromise_def)
    from readGaiaCommit_cache [OF this] pullApplicationZip_cache [OF z] show ?thesis by simp
  next
    case Pending
    with assms z have "st' = s1" by (simp add: gaiaPromise_def)
    with pullApplicationZip_cache [OF z] show ?thesis by simp
  next
    case (Rejected e)
    with assms z have "st' = s1" by (simp add: gaiaPromise_def)
    with pullApplicationZip_cache [OF z] show ?thesis by simp
  qed
qed

lemma getGaiaRevision_miss:
  "\<not> truthy (gaiaRevision st) \<Longrightarrow> gaiaPromise util dev st = (p, st') \<Longrightarrow>
     getGaiaRevision util dev st =
       (p, case p of Fulfilled sha \<Rightarrow> st'\<lparr>gaiaRevision := sha\<rparr> | _ \<Rightarrow> st')"
  by (simp add: getGaiaRevision_def split: promise.splits)

lemma request_hit:
  "cached k st = Str v \<Longrightarrow> v \<noteq> [] \<Longrightarrow> request k util dev st = (Fulfilled (Str v), st)"
  by (cases k) (simp_all add: getGeckoRevision_def getGaiaRevision_def)

lemma gecko_keeps_gaia:
  "gaiaRevision (snd (getGeckoRevision util dev st)) = gaiaRevision st"
proof (cases "truthy (geckoRevision st)")
  case True
  then show ?thesis by (simp add: getGeckoRevision_def)
next
  case False
  obtain p st' where g: "geckoPromise util dev st = (p, st')"
    by (cases "geckoPromise util dev st")
  from geckoPromise_cache [OF g] show ?thesis
    by (simp add: getGeckoRevision_miss [OF False g] split: promise.splits)
qed

lemma gaia_keeps_gecko:
  "geckoRevision (snd (getGaiaRevision util dev st)) = geckoRevision st"
proof (cases "truthy (gaiaRevision st)")
  case True
  then show ?thesis by (simp add: getGaiaRevision_def)
next
  case False
  obtain p st' where g: "gaiaPromise util dev st = (p, st')"
    by (cases "gaiaPromise util dev st")
  from gaiaPromise_cache [OF g] show ?thesis
    by (simp add: getGaiaRevision_miss [OF False g] split: promise.splits)
qed

lemma request_keeps:
  assumes "cached k st = Str v" and "v \<noteq> []"
  shows "cached k (snd (request k' util dev st)) = Str v"
proof (cases "k' = k")
  case True
  with request_hit [OF assms] assms(1) show ?thesis by simp
next
  case False
  with assms(1) show ?thesis
    by (cases k; cases k') (simp_all add: gecko_keeps_gaia gaia_keeps_gecko)
qed

lemma serve_keeps:
  "cached k st = Str v \<Longrightarrow> v \<noteq> [] \<Longrightarrow> cached k (serve reqs st) = Str v"
proof (induction reqs arbitrary: st)
  case Nil
  then show ?case by simp
next
  case (Cons r reqs)
  obtain k' util dev where r: "r = (k', util, dev)" by (cases r)
  from Cons.prems have "cached k (snd (request k' util dev st)) = Str v"
    by (rule request_keeps)
  from Cons.IH [OF this Cons.prems(2)] r show ?case by simp
qed

lemma request_populates:
  assumes "fst (request k util dev st) = Fulfilled (Str v)"
  shows "cached k (snd (request k util dev st)) = Str v"
proof (cases k)
  case Gecko
  show ?thesis
  proof (cases "truthy (geckoRevision st)")
    case True
    with assms Gecko show ?thesis by (simp add: getGeckoRevision_def)
  next
    case False
    obtain p st' where g: "geckoPromise util dev st = (p, st')"
      by (cases "geckoPromise util dev st")
    from assms Gecko show ?thesis
      by (simp add: getGeckoRevision_miss [OF False g])
  qed
next
  case Gaia
  show ?thesis
  proof (cases "truthy (gaiaRevision st)")
    case True
    with assms Gaia show ?thesis by (simp add: getGaiaRevision_def)
  next
    case False
    obtain p st' where g: "gaiaPromise util dev st = (p, st')"
      by (cases "gaiaPromise util dev st")
    from assms Gaia show ?thesis
      by (simp add: getGaiaRevision_miss [OF False g])
  qed
qed

text \<open>
  Claim C4, as amended. For either kind: once a request has been fulfilled with a
  non-empty string \<open>v\<close>, the cache of that kind holds \<open>v\<close>; it still holds \<open>v\<close> after any
  further requests \<open>reqs\<close>, of either kind, from any \<^verbatim>\<open>Util\<close> instance, whatever the
  device answers; and a request of that kind made then, by any instance against any
  device, is fulfilled with \<open>v\<close> and leaves the state, and so the trace of retrievals and
  adb commands, as it was.
\<close>

theorem nonempty_revision_cached_forever:
  assumes "fst (request k util0 dev0 st0) = Fulfilled (Str v)" and "v \<noteq> []"
  shows "let st = snd (request k util0 dev0 st0); st' = serve reqs st
         in cached k st = Str v
          \<and> cached k st' = Str v
          \<and> request k util dev st' = (Fulfilled (Str v), st')
          \<and> trace (snd (request k util dev st')) = trace st'"
proof -
  let ?st = "snd (request k util0 dev0 st0)"
  have a: "cached k ?st = Str v" using assms(1) by (rule request_populates)
  then have b: "cached k (serve reqs ?st) = Str v" using assms(2) by (rule serve_keeps)
  then have c: "request k util dev (serve reqs ?st) = (Fulfilled (Str v), serve reqs ?st)"
    using assms(2) by (rule request_hit)
  from a b c show ?thesis by (simp add: Let_def)
qed

theorem nonempty_revision_cached_forever_witness:
  "fst (request Gecko util1 dev_primary initial) = Fulfilled (Str ''cafef00d'')
   \<and> request Gecko util2 unreachable
        (serve [(Gaia, util2, dev_primary), (Gecko, util2, unreachable)]
           (snd (request Gecko util1 dev_primary initial)))
      = (Fulfilled (Str ''cafef00d''),
         serve [(Gaia, util2, dev_primary), (Gecko, util2, unreachable)]
           (snd (request Gecko util1 dev_primary initial)))
   \<and> fst (request Gecko util2 unreachable initial)
      = Rejected (Error ''remote object /system/b2g/platform.ini does not exist'')"
proof -
  have h1: "fst (request Gecko util1 dev_primary initial) = Fulfilled (Str ''cafef00d'')"
    by code_simp
  have h2: "''cafef00d'' \<noteq> []" by simp
  have other: "fst (request Gecko util2 unreachable initial)
      = Rejected (Error ''remote object /system/b2g/platform.ini does not exist'')"
    by code_simp
  note m = nonempty_revision_cached_forever
    [OF h1 h2, of "[(Gaia, util2, dev_primary), (Gecko, util2, unreachable)]" util2 unreachable,
     unfolded Let_def]
  from m h1 other show ?thesis by simp
qed

text \<open>
  The cache test of the source is truthiness, and the empty string is falsy. An
  \<^verbatim>\<open>application.ini\<close> with the line \<^verbatim>\<open>SourceStamp=\<close> resolves with the empty
  string, which is stored; the next request goes to the device again, returns what the
  device holds then, and replaces the stored value.
\<close>

theorem empty_revision_not_cached_counterexample:
  "fst (getGeckoRevision util1 dev_empty_stamp initial) = Fulfilled (Str '''')
   \<and> geckoRevision (snd (getGeckoRevision util1 dev_empty_stamp initial)) = Str ''''
   \<and> fst (getGeckoRevision util1 dev_primary
           (snd (getGeckoRevision util1 dev_empty_stamp initial)))
       = Fulfilled (Str ''cafef00d'')
   \<and> trace (snd (getGeckoRevision util1 dev_primary
           (snd (getGeckoRevision util1 dev_empty_stamp initial))))
       \<noteq> trace (snd (getGeckoRevision util1 dev_empty_stamp initial))
   \<and> geckoRevision (snd (getGeckoRevision util1 dev_primary
           (snd (getGeckoRevision util1 dev_empty_stamp initial)))) = Str ''cafef00d''"
  by code_simp

end
